theory Spec2Isabelle
  imports Main "HOL-Library.AList" "HOL-Library.Word"
begin

section \<open>Strings: the library calls used by \<open>SunoApi.ts\<close>\<close>

text \<open>
  A JavaScript string is a sequence of UTF-16 code units, here a list of 16-bit words.
  \<open>str\<close> writes a literal: each character becomes the code unit of its code, so an
  ASCII literal is the string the source writes. The three library calls of the source
  are written out: \<^verbatim>\<open>Array.prototype.join(sep)\<close>, \<^verbatim>\<open>String.prototype.split(sep)\<close> with
  a separator of one code unit, and \<^verbatim>\<open>String.prototype.trim()\<close>.
\<close>

type_synonym js_string = "16 word list"

definition str :: "string \<Rightarrow> js_string" where
  "str s = map of_char s"

fun join :: "js_string \<Rightarrow> js_string list \<Rightarrow> js_string" where
  "join sep [] = []"
| "join sep [x] = x"
| "join sep (x # y # ys) = x @ sep @ join sep (y # ys)"

text \<open>
  \<open>split c s\<close> cuts \<open>s\<close> at every occurrence of \<open>c\<close>; the empty string gives one
  empty piece, as in JavaScript.
\<close>

fun split :: "16 word \<Rightarrow> js_string \<Rightarrow> js_string list" where
  "split c [] = [[]]"
| "split c (x # xs) =
     (if x = c then [] # split c xs
      else (case split c xs of [] \<Rightarrow> [[x]] | l # ls \<Rightarrow> (x # l) # ls))"

text \<open>
  What \<open>trim\<close> removes at both ends is the white space and the line terminators of
  ECMAScript. White space: tab U+0009, vertical tab U+000B, form feed U+000C, space U+0020,
  no-break space U+00A0, the byte order mark U+FEFF, and the other space separators of
  Unicode (U+1680, U+2000 to U+200A, U+202F, U+205F, U+3000). Line terminators: line feed
  U+000A, carriage return U+000D, line separator U+2028, paragraph separator U+2029. Each
  of them is one code unit.
\<close>

definition is_whitespace :: "16 word \<Rightarrow> bool" where
  "is_whitespace c \<longleftrightarrow>
     c = 0x0009 \<or> c = 0x000B \<or> c = 0x000C \<or> c = 0x0020 \<or> c = 0x00A0 \<or> c = 0xFEFF \<or>
     c = 0x1680 \<or> (0x2000 \<le> c \<and> c \<le> 0x200A) \<or> c = 0x202F \<or> c = 0x205F \<or> c = 0x3000 \<or>
     c = 0x000A \<or> c = 0x000D \<or> c = 0x2028 \<or> c = 0x2029"

definition trim :: "js_string \<Rightarrow> js_string" where
  "trim s = rev (dropWhile is_whitespace (rev (dropWhile is_whitespace s)))"

section \<open>Lyrics\<close>

text \<open>
  \<^verbatim>\<open>
  private parseLyrics(prompt: string): string {
    const lines = prompt.split('\n').filter(line => line.trim() !== '');
    return lines.join('\n');
  }
  \<close>
\<close>

definition parseLyrics :: "js_string \<Rightarrow> js_string" where
  "parseLyrics prompt =
     (let lines = filter (\<lambda>line. trim line \<noteq> []) (split 0x0A prompt)
      in join [0x0A] lines)"

section \<open>Data\<close>

text \<open>
  What the source throws: \<^verbatim>\<open>new Error(message)\<close>, the \<^verbatim>\<open>TypeError\<close> of reading a
  property of a value that is not there, and the rejection of a call by the HTTP client
  (time-out, network failure, refused status).
\<close>

datatype error =
    Error js_string
  | TypeError
  | TransportError js_string

text \<open>The values stored in the submission payload, an object with string keys kept in
  insertion order.\<close>

datatype jvalue = JUndefined | JBool bool | JString js_string

type_synonym payload = "(js_string \<times> jvalue) list"

text \<open>The per-job object of the service, as \<open>generateSongs\<close> and \<open>get\<close> read it. An
  optional field is \<open>None\<close> when the service leaves it out.\<close>

record metadata =
  meta_prompt :: "js_string option"
  meta_gpt_description_prompt :: "js_string option"
  meta_type :: "js_string option"
  meta_tags :: "js_string option"
  meta_duration_formatted :: "js_string option"

record clip =
  clip_id :: js_string
  clip_title :: "js_string option"
  clip_image_url :: "js_string option"
  clip_metadata :: metadata
  clip_audio_url :: "js_string option"
  clip_video_url :: "js_string option"
  clip_created_at :: js_string
  clip_model_name :: js_string
  clip_status :: js_string

text \<open>\<^verbatim>\<open>interface AudioInfo\<close>; the fields carry the prefix \<open>info_\<close>.\<close>

record AudioInfo =
  info_id :: js_string
  info_title :: "js_string option"
  info_image_url :: "js_string option"
  info_lyric :: "js_string option"
  info_audio_url :: "js_string option"
  info_video_url :: "js_string option"
  info_created_at :: js_string
  info_model_name :: js_string
  info_gpt_description_prompt :: "js_string option"
  info_prompt :: "js_string option"
  info_status :: js_string
  info_type :: "js_string option"
  info_tags :: "js_string option"
  info_duration :: "js_string option"

section \<open>The HTTP client and the clock\<close>

text \<open>
  The body of a response, by the endpoint that produces it: the identity endpoint, when
  its \<open>response\<close> object is there (\<open>data.response.last_active_session_id\<close>, which may
  be missing or null), the token endpoint (\<open>data.jwt\<close>), the submission endpoint
  (\<open>data.clips\<close>), the feed (\<open>data\<close> is the array itself), and any other object, such as
  an identity answer without the \<open>response\<close> object.
\<close>

datatype body =
    SessionBody "js_string option"
  | TokenBody "js_string option"
  | ClipsBody "clip list"
  | FeedBody "clip list"
  | OtherBody

record response =
  resp_status :: nat
  resp_statusText :: js_string
  resp_data :: body

datatype http_method = GET | POST

record http_request =
  req_method :: http_method
  req_url :: js_string
  req_cookie :: js_string
  req_authorization :: "js_string option"
  req_data :: "payload option"
  req_timeout :: "nat option"

text \<open>
  The environment of one client: \<open>respond w k req\<close> is what the network does with the
  \<open>k\<close>-th request this client sends (the milliseconds it takes, and a rejection message
  or a response), and \<open>random w k\<close> is the \<open>k\<close>-th random draw.
\<close>

record world =
  respond :: "nat \<Rightarrow> http_request \<Rightarrow> nat \<times> (js_string + response)"
  random :: "nat \<Rightarrow> nat"

text \<open>
  \<^verbatim>\<open>class SunoApi\<close>: the session id, and of the axios instance the cookie header and the
  request interceptors registered so far, each with the token it captured, in order of
  registration. \<open>sent\<close> logs the requests issued, \<open>clock\<close> is \<^verbatim>\<open>Date.now()\<close> in
  milliseconds, \<open>draws\<close> counts the random draws made.
\<close>

record SunoApi =
  cookie_header :: js_string
  sid :: "js_string option"
  interceptors :: "js_string option list"
  sent :: "http_request list"
  clock :: nat
  draws :: nat

definition BASE_URL :: js_string where
  "BASE_URL = str ''https://studio-api.suno.ai''"

definition CLERK_BASE_URL :: js_string where
  "CLERK_BASE_URL = str ''https://clerk.suno.ai''"

text \<open>\<^verbatim>\<open>constructor(cookie: string)\<close>, at time \<open>t\<close>.\<close>

definition new_SunoApi :: "js_string \<Rightarrow> nat \<Rightarrow> SunoApi" where
  "new_SunoApi cookie t =
     \<lparr>cookie_header = cookie, sid = None, interceptors = [], sent = [], clock = t, draws = 0\<rparr>"

text \<open>JavaScript truthiness of an optional string, and its rendering in a template
  literal.\<close>

fun truthy :: "js_string option \<Rightarrow> bool" where
  "truthy None = False"
| "truthy (Some s) = (s \<noteq> [])"

fun template :: "js_string option \<Rightarrow> js_string" where
  "template None = str ''undefined''"
| "template (Some s) = s"

text \<open>
  Each interceptor registered by \<open>keepAlive\<close> is
  \<^verbatim>\<open>config.headers['Authorization'] = `Bearer ${newToken}`\<close>. axios runs the request
  interceptors of an instance on every request, the one registered last first and the
  one registered first last (its request chain is built with \<^verbatim>\<open>unshift\<close>), each
  overwriting the header.
\<close>

definition request_authorization :: "js_string option list \<Rightarrow> js_string option" where
  "request_authorization handlers =
     fold (\<lambda>newToken header. Some (str ''Bearer '' @ template newToken)) (rev handlers) None"

definition build_request ::
  "SunoApi \<Rightarrow> http_method \<Rightarrow> js_string \<Rightarrow> payload option \<Rightarrow> nat option \<Rightarrow> http_request" where
  "build_request st m url body timeout =
     \<lparr>req_method = m, req_url = url, req_cookie = cookie_header st,
      req_authorization = request_authorization (interceptors st),
      req_data = body, req_timeout = timeout\<rparr>"

text \<open>\<^verbatim>\<open>await this.client.get(url, config)\<close> and \<^verbatim>\<open>await this.client.post(url, data, config)\<close>.\<close>

definition client_request ::
  "world \<Rightarrow> SunoApi \<Rightarrow> http_method \<Rightarrow> js_string \<Rightarrow> payload option \<Rightarrow> nat option
     \<Rightarrow> (error + response) \<times> SunoApi" where
  "client_request w st m url body timeout =
     (let req = build_request st m url body timeout;
          (ms, r) = respond w (length (sent st)) req;
          st' = st\<lparr>sent := sent st @ [req], clock := clock st + ms\<rparr>
      in (case r of
            Inl msg \<Rightarrow> (Inl (TransportError msg), st')
          | Inr resp \<Rightarrow> (Inr resp, st')))"

text \<open>
  Modelled from the spec: \<open>sleep\<close> is imported from \<^verbatim>\<open>@/lib/utils\<close>, a file of the
  repository that is not among the sources. The spec describes \<open>sleep(x, y)\<close> as a pause
  for a randomized interval of \<open>x\<close> to \<open>y\<close> seconds (\<open>sleep(5, 5)\<close> is effectively
  fixed). The pause is the lower bound plus a random draw reduced into the width of the
  interval, in milliseconds.
\<close>

definition sleep :: "world \<Rightarrow> nat \<Rightarrow> nat \<Rightarrow> SunoApi \<Rightarrow> SunoApi" where
  "sleep w x y st =
     st\<lparr>clock := clock st + (1000 * x + random w (draws st) mod (1000 * (y - x) + 1)),
        draws := Suc (draws st)\<rparr>"

section \<open>The session\<close>

text \<open>
  \<^verbatim>\<open>
  private async getAuthToken() {
    const getSessionUrl = `${SunoApi.CLERK_BASE_URL}/v1/client?_clerk_js_version=4.70.5`;
    const sessionResponse = await this.client.get(getSessionUrl);
    const sid = sessionResponse.data.response['last_active_session_id'];
    if (!sid) {
      throw new Error("Failed to get session id");
    }
    this.sid = sid;
  }
  \<close>
\<close>

definition getAuthToken :: "world \<Rightarrow> SunoApi \<Rightarrow> (error + unit) \<times> SunoApi" where
  "getAuthToken w st =
     (let getSessionUrl = CLERK_BASE_URL @ str ''/v1/client?_clerk_js_version=4.70.5'' in
      case client_request w st GET getSessionUrl None None of
        (Inl e, st1) \<Rightarrow> (Inl e, st1)
      | (Inr sessionResponse, st1) \<Rightarrow>
          (case resp_data sessionResponse of
             SessionBody sid' \<Rightarrow>
               if \<not> truthy sid' then (Inl (Error (str ''Failed to get session id'')), st1)
               else (Inr (), st1\<lparr>sid := sid'\<rparr>)
           | _ \<Rightarrow> (Inl TypeError, st1)))"

text \<open>
  \<^verbatim>\<open>
  public async keepAlive(isWait?: boolean): Promise<void> {
    if (!this.sid) {
      throw new Error("Session ID is not set. Cannot renew token.");
    }
    const renewUrl = `${SunoApi.CLERK_BASE_URL}/v1/client/sessions/${this.sid}/tokens/api?_clerk_js_version=4.70.0`;
    const renewResponse = await this.client.post(renewUrl);
    if (isWait) {
      await sleep(1, 2);
    }
    const newToken = renewResponse.data['jwt'];
    // (comment of the source, translated) update the Authorization field of the
    // request header, using the new JWT token
    this.client.interceptors.request.use(function (config) {
      config.headers['Authorization'] = `Bearer ${newToken}`
      return config;
    })
  }
  \<close>
\<close>

definition renewUrl :: "js_string \<Rightarrow> js_string" where
  "renewUrl s =
     CLERK_BASE_URL @ str ''/v1/client/sessions/'' @ s @ str ''/tokens/api?_clerk_js_version=4.70.0''"

definition keepAlive :: "world \<Rightarrow> SunoApi \<Rightarrow> bool \<Rightarrow> (error + unit) \<times> SunoApi" where
  "keepAlive w st isWait =
     (if \<not> truthy (sid st) then (Inl (Error (str ''Session ID is not set. Cannot renew token.'')), st)
      else
        case client_request w st POST (renewUrl (template (sid st))) None None of
          (Inl e, st1) \<Rightarrow> (Inl e, st1)
        | (Inr renewResponse, st1) \<Rightarrow>
            (let st2 = (if isWait then sleep w 1 2 st1 else st1);
                 newToken = (case resp_data renewResponse of TokenBody t \<Rightarrow> t | _ \<Rightarrow> None)
             in (Inr (), st2\<lparr>interceptors := interceptors st2 @ [newToken]\<rparr>)))"

text \<open>
  \<^verbatim>\<open>
  public async init(): Promise<SunoApi> {
    await this.getAuthToken();
    await this.keepAlive();
    return this;
  }
  \<close>
\<close>

definition init :: "world \<Rightarrow> SunoApi \<Rightarrow> (error + unit) \<times> SunoApi" where
  "init w st =
     (case getAuthToken w st of
        (Inl e, st1) \<Rightarrow> (Inl e, st1)
      | (Inr _, st1) \<Rightarrow> keepAlive w st1 False)"

section \<open>Fetching jobs\<close>

text \<open>The record built for each element of the feed by \<open>get\<close>.\<close>

definition feed_info :: "clip \<Rightarrow> AudioInfo" where
  "feed_info audio =
     \<lparr>info_id = clip_id audio,
      info_title = clip_title audio,
      info_image_url = clip_image_url audio,
      info_lyric =
        (case meta_prompt (clip_metadata audio) of
           Some prompt \<Rightarrow> if prompt \<noteq> [] then Some (parseLyrics prompt) else Some []
         | None \<Rightarrow> Some []),
      info_audio_url = clip_audio_url audio,
      info_video_url = clip_video_url audio,
      info_created_at = clip_created_at audio,
      info_model_name = clip_model_name audio,
      info_gpt_description_prompt = meta_gpt_description_prompt (clip_metadata audio),
      info_prompt = meta_prompt (clip_metadata audio),
      info_status = clip_status audio,
      info_type = meta_type (clip_metadata audio),
      info_tags = meta_tags (clip_metadata audio),
      info_duration = meta_duration_formatted (clip_metadata audio)\<rparr>"

text \<open>
  \<^verbatim>\<open>
  public async get(songIds?: string[]): Promise<AudioInfo[]> {
    let url = `${SunoApi.BASE_URL}/api/feed/`;
    if (songIds) {
      url = `${url}?ids=${songIds.join(',')}`;
    }
    const response = await this.client.get(url, { timeout: 3000 });
    const audios = response.data;
    return audios.map((audio: any) => ({ ... }));
  }
  \<close>
  An array is truthy also when it is empty.
\<close>

definition get_url :: "js_string list option \<Rightarrow> js_string" where
  "get_url songIds =
     (let url = BASE_URL @ str ''/api/feed/'' in
      case songIds of
        Some ids \<Rightarrow> url @ str ''?ids='' @ join (str '','') ids
      | None \<Rightarrow> url)"

definition get :: "world \<Rightarrow> SunoApi \<Rightarrow> js_string list option \<Rightarrow> (error + AudioInfo list) \<times> SunoApi" where
  "get w st songIds =
     (case client_request w st GET (get_url songIds) None (Some 3000) of
        (Inl e, st1) \<Rightarrow> (Inl e, st1)
      | (Inr response, st1) \<Rightarrow>
          (case resp_data response of
             FeedBody audios \<Rightarrow> (Inr (map feed_info audios), st1)
           | _ \<Rightarrow> (Inl TypeError, st1)))"

section \<open>Generating songs\<close>

text \<open>
  \<^verbatim>\<open>
    const payload: any = {
      make_instrumental: make_instrumental == true,
      mv: "chirp-v3-0",
      prompt: "",
    };
    if (isCustom) {
      payload.tags = tags;
      payload.title = title;
      payload.prompt = prompt;
    } else {
      payload.gpt_description_prompt = prompt;
    }
  \<close>
  An assignment to a key replaces the value where the key is, or adds the key at the end.
\<close>

fun jstring :: "js_string option \<Rightarrow> jvalue" where
  "jstring None = JUndefined"
| "jstring (Some s) = JString s"

definition build_payload ::
  "js_string \<Rightarrow> bool \<Rightarrow> js_string option \<Rightarrow> js_string option \<Rightarrow> bool option \<Rightarrow> payload" where
  "build_payload prompt isCustom tags title make_instrumental =
     (let payload =
            [(str ''make_instrumental'', JBool (make_instrumental = Some True)),
             (str ''mv'', JString (str ''chirp-v3-0'')),
             (str ''prompt'', JString [])]
      in if isCustom then
           AList.update (str ''prompt'') (JString prompt)
             (AList.update (str ''title'') (jstring title)
               (AList.update (str ''tags'') (jstring tags) payload))
         else AList.update (str ''gpt_description_prompt'') (JString prompt) payload)"

text \<open>The record built for each clip of the submission response when \<open>generateSongs\<close>
  does not wait.\<close>

definition clip_info :: "clip \<Rightarrow> AudioInfo" where
  "clip_info audio =
     \<lparr>info_id = clip_id audio,
      info_title = clip_title audio,
      info_image_url = clip_image_url audio,
      info_lyric = meta_prompt (clip_metadata audio),
      info_audio_url = clip_audio_url audio,
      info_video_url = clip_video_url audio,
      info_created_at = clip_created_at audio,
      info_model_name = clip_model_name audio,
      info_gpt_description_prompt = meta_gpt_description_prompt (clip_metadata audio),
      info_prompt = meta_prompt (clip_metadata audio),
      info_status = clip_status audio,
      info_type = meta_type (clip_metadata audio),
      info_tags = meta_tags (clip_metadata audio),
      info_duration = meta_duration_formatted (clip_metadata audio)\<rparr>"

text \<open>
  The loop of \<open>generateSongs\<close>, entered with the state, \<open>startTime\<close>, \<open>songIds\<close> and
  \<open>lastResponse\<close>:
  \<^verbatim>\<open>
      while (Date.now() - startTime < 100000) {
        const response = await this.get(songIds);
        const allCompleted = response.every(
          audio => audio.status === 'streaming' || audio.status === 'complete'
        );
        if (allCompleted) {
          return response;
        }
        lastResponse = response;
        await sleep(3, 6);
        await this.keepAlive(true);
      }
      return lastResponse;
  \<close>
\<close>

definition allCompleted :: "AudioInfo list \<Rightarrow> bool" where
  "allCompleted response =
     list_all (\<lambda>audio. info_status audio = str ''streaming'' \<or> info_status audio = str ''complete'')
       response"

function poll_loop ::
  "world \<Rightarrow> SunoApi \<Rightarrow> nat \<Rightarrow> js_string list \<Rightarrow> AudioInfo list
     \<Rightarrow> (error + AudioInfo list) \<times> SunoApi" where
  "poll_loop w st startTime songIds lastResponse =
     (if int (clock st) - int startTime < 100000 then
        (case get w st (Some songIds) of
           (Inl e, st1) \<Rightarrow> (Inl e, st1)
         | (Inr response, st1) \<Rightarrow>
             if allCompleted response then (Inr response, st1)
             else
               (case keepAlive w (sleep w 3 6 st1) True of
                  (Inl e, st3) \<Rightarrow> (Inl e, st3)
                | (Inr _, st3) \<Rightarrow> poll_loop w st3 startTime songIds response))
      else (Inr lastResponse, st))"
  by pat_completeness auto
termination
proof (relation "measure (\<lambda>(w, st, startTime, songIds, lastResponse).
                   nat (int startTime + 100000 - int (clock st)))")
  show "wf (measure (\<lambda>(w, st, startTime, songIds, lastResponse).
                   nat (int startTime + 100000 - int (clock st))))"
    by simp
next
  fix w :: world and st st1 st3 :: SunoApi and startTime :: nat and songIds :: "js_string list"
    and lastResponse response :: "AudioInfo list" and x :: "error + AudioInfo list"
    and y :: "error + unit" and u :: unit
  assume running: "int (clock st) - int startTime < 100000"
    and fetched: "(x, st1) = get w st (Some songIds)"
    and renewed: "(y, st3) = keepAlive w (sleep w 3 6 st1) True"
  have "clock st \<le> clock st1"
    using fetched
    by (auto simp: get_def client_request_def Let_def
             split: prod.splits sum.splits body.splits)
  moreover have "clock st1 + 3000 \<le> clock (sleep w 3 6 st1)"
    by (simp add: sleep_def)
  moreover have "clock (sleep w 3 6 st1) \<le> clock st3"
    using renewed
    by (auto simp: keepAlive_def client_request_def Let_def sleep_def
             split: prod.splits sum.splits if_splits)
  ultimately have "clock st < clock st3" by linarith
  with running
  show "((w, st3, startTime, songIds, response), (w, st, startTime, songIds, lastResponse))
          \<in> measure (\<lambda>(w, st, startTime, songIds, lastResponse).
                       nat (int startTime + 100000 - int (clock st)))"
    by simp
qed

text \<open>
  \<^verbatim>\<open>
  private async generateSongs(prompt: string, isCustom: boolean, tags?: string,
      title?: string, make_instrumental?: boolean, wait_audio: boolean = false
  ): Promise<AudioInfo[]> {
    const payload: any = ...
    const response = await this.client.post(
      `${SunoApi.BASE_URL}/api/generate/v2/`, payload, { timeout: 10000 });
    if (response.status !== 200) {
      throw new Error("Error response:" + response.statusText);
    }
    const songIds = response.data['clips'].map((audio: any) => audio.id);
    if (wait_audio) {
      const startTime = Date.now();
      let lastResponse: AudioInfo[] = [];
      await sleep(5, 5);
      while ...
      return lastResponse;
    } else {
      await this.keepAlive(true);
      return response.data['clips'].map((audio: any) => ({ ... }));
    }
  }
  \<close>
\<close>

definition generateSongs ::
  "world \<Rightarrow> SunoApi \<Rightarrow> js_string \<Rightarrow> bool \<Rightarrow> js_string option \<Rightarrow> js_string option \<Rightarrow> bool option \<Rightarrow> bool
     \<Rightarrow> (error + AudioInfo list) \<times> SunoApi" where
  "generateSongs w st prompt isCustom tags title make_instrumental wait_audio =
     (let payload = build_payload prompt isCustom tags title make_instrumental in
      case client_request w st POST (BASE_URL @ str ''/api/generate/v2/'') (Some payload)
             (Some 10000) of
        (Inl e, st1) \<Rightarrow> (Inl e, st1)
      | (Inr response, st1) \<Rightarrow>
          if resp_status response \<noteq> 200 then
            (Inl (Error (str ''Error response:'' @ resp_statusText response)), st1)
          else
            (case resp_data response of
               ClipsBody clips \<Rightarrow>
                 (let songIds = map clip_id clips in
                  if wait_audio then
                    (let startTime = clock st1 in
                     poll_loop w (sleep w 5 5 st1) startTime songIds [])
                  else
                    (case keepAlive w st1 True of
                       (Inl e, st2) \<Rightarrow> (Inl e, st2)
                     | (Inr _, st2) \<Rightarrow> (Inr (map clip_info clips), st2)))
             | _ \<Rightarrow> (Inl TypeError, st1)))"

text \<open>The two public entry points. \<open>generate\<close> passes no tags and no title;
  \<open>custom_generate\<close> passes both.\<close>

definition generate ::
  "world \<Rightarrow> SunoApi \<Rightarrow> js_string \<Rightarrow> bool \<Rightarrow> bool \<Rightarrow> (error + AudioInfo list) \<times> SunoApi" where
  "generate w st prompt make_instrumental wait_audio =
     generateSongs w st prompt False None None (Some make_instrumental) wait_audio"

definition custom_generate ::
  "world \<Rightarrow> SunoApi \<Rightarrow> js_string \<Rightarrow> js_string \<Rightarrow> js_string \<Rightarrow> bool \<Rightarrow> bool
     \<Rightarrow> (error + AudioInfo list) \<times> SunoApi" where
  "custom_generate w st prompt tags title make_instrumental wait_audio =
     generateSongs w st prompt True (Some tags) (Some title) (Some make_instrumental) wait_audio"

section \<open>Properties of the string functions\<close>

text \<open>Literals: \<open>str\<close> is injective and distributes over concatenation, so equations
  between literals are decided on the literals.\<close>

lemma of_char_unit_eq_iff: "(of_char c :: 16 word) = of_char d \<longleftrightarrow> c = d"
proof
  assume "(of_char c :: 16 word) = of_char d"
  then have "(of_nat (of_char c) :: 16 word) = of_nat (of_char d)"
    by (simp add: of_nat_of_char)
  then have "unat (of_nat (of_char c) :: 16 word) = unat (of_nat (of_char d) :: 16 word)"
    by simp
  moreover have "(of_char c :: nat) < 65536"
    by (rule less_trans [OF nat_of_char_less_256]) simp
  moreover have "(of_char d :: nat) < 65536"
    by (rule less_trans [OF nat_of_char_less_256]) simp
  ultimately have "(of_char c :: nat) = of_char d"
    by (simp add: unat_of_nat)
  then show "c = d" by simp
qed simp

lemma str_eq_iff [simp]: "str a = str b \<longleftrightarrow> a = b"
proof -
  have "inj (of_char :: char \<Rightarrow> 16 word)"
    by (rule injI) (simp add: of_char_unit_eq_iff)
  then show ?thesis by (simp add: str_def inj_map_eq_map)
qed

lemma str_Nil [simp]: "str [] = []"
  by (simp add: str_def)

lemma str_eq_Nil_iff [simp]: "str a = [] \<longleftrightarrow> a = []" "[] = str a \<longleftrightarrow> a = []"
  by (auto simp: str_def)

lemma str_append [simp]: "str a @ str b = str (a @ b)" "str a @ str b @ x = str (a @ b) @ x"
  by (simp_all add: str_def)

lemma split_not_Nil: "split c s \<noteq> []"
  by (induction s) (auto split: list.splits)

lemma split_pieces_free: "l \<in> set (split c s) \<Longrightarrow> c \<notin> set l"
proof (induction s arbitrary: l)
  case Nil
  then show ?case by simp
next
  case (Cons x xs)
  show ?case
  proof (cases "x = c")
    case True
    with Cons show ?thesis by auto
  next
    case False
    obtain p ps where ps: "split c xs = p # ps"
      using split_not_Nil [of c xs] by (cases "split c xs") auto
    with Cons.prems False have "l = x # p \<or> l \<in> set ps" by auto
    then show ?thesis
    proof
      assume "l = x # p"
      moreover have "c \<notin> set p" using Cons.IH [of p] ps by simp
      ultimately show ?thesis using False by auto
    next
      assume "l \<in> set ps"
      then show ?thesis using Cons.IH [of l] ps by simp
    qed
  qed
qed

lemma split_free: "c \<notin> set l \<Longrightarrow> split c l = [l]"
  by (induction l) auto

lemma split_append_sep:
  "c \<notin> set l \<Longrightarrow> split c (l @ c # rest) = l # split c rest"
  by (induction l) auto

lemma split_join:
  "ls \<noteq> [] \<Longrightarrow> \<forall>l\<in>set ls. c \<notin> set l \<Longrightarrow> split c (join [c] ls) = ls"
proof (induction ls)
  case Nil
  then show ?case by simp
next
  case (Cons x xs)
  show ?case
  proof (cases xs)
    case Nil
    with Cons.prems show ?thesis by (simp add: split_free)
  next
    case (Cons y ys)
    with Cons.IH Cons.prems have "split c (join [c] (y # ys)) = y # ys" by simp
    with Cons Cons.prems show ?thesis by (simp add: split_append_sep)
  qed
qed

lemma trim_Nil: "trim [] = []"
  by (simp add: trim_def)

text \<open>
  Splitting at \<open>c\<close>, keeping some of the pieces and joining them with \<open>c\<close> again is
  idempotent as soon as the empty piece is not kept, whatever else the filter keeps.
\<close>

lemma keep_lines_idempotent:
  assumes "\<not> keep []"
  shows "join [c] (filter keep (split c (join [c] (filter keep (split c x)))))
           = join [c] (filter keep (split c x))"
proof (cases "filter keep (split c x) = []")
  case True
  with assms show ?thesis by simp
next
  case False
  have "\<forall>l\<in>set (filter keep (split c x)). c \<notin> set l"
    using split_pieces_free by auto
  with False have "split c (join [c] (filter keep (split c x))) = filter keep (split c x)"
    by (rule split_join)
  then show ?thesis by simp
qed

text \<open>
  C9: normalising lyrics twice gives the same text as normalising them once, for every
  input string. Of \<open>trim\<close> the proof uses only that the empty line is blank, so the
  result does not depend on which characters count as white space.
\<close>

theorem parseLyrics_idempotent: "parseLyrics (parseLyrics x) = parseLyrics x"
proof -
  have "\<not> (\<lambda>line. trim line \<noteq> []) []" by (simp add: trim_Nil)
  with keep_lines_idempotent [of "\<lambda>line. trim line \<noteq> []" "0x0A" x]
  show ?thesis by (simp add: parseLyrics_def)
qed

section \<open>Requests, the clock and the session: basic facts\<close>

declare poll_loop.simps [simp del]

lemma client_request_ok:
  "respond w (length (sent st)) (build_request st m url b t) = (ms, Inr resp) \<Longrightarrow>
   client_request w st m url b t =
     (Inr resp, st\<lparr>sent := sent st @ [build_request st m url b t], clock := clock st + ms\<rparr>)"
  by (simp add: client_request_def)

lemma client_request_rejected:
  "respond w (length (sent st)) (build_request st m url b t) = (ms, Inl msg) \<Longrightarrow>
   client_request w st m url b t =
     (Inl (TransportError msg),
      st\<lparr>sent := sent st @ [build_request st m url b t], clock := clock st + ms\<rparr>)"
  by (simp add: client_request_def)

lemma client_request_state:
  "client_request w st m url b t = (r, st') \<Longrightarrow>
   sent st' = sent st @ [build_request st m url b t] \<and> sid st' = sid st \<and>
   interceptors st' = interceptors st \<and> clock st \<le> clock st' \<and> draws st' = draws st"
  by (auto simp: client_request_def Let_def split: prod.splits sum.splits)

lemma request_authorization_Nil: "request_authorization [] = None"
  by (simp add: request_authorization_def)

lemma request_authorization_Cons:
  "request_authorization (t # ts) = Some (str ''Bearer '' @ template t)"
  by (simp add: request_authorization_def)

lemma sleep_state:
  "sent (sleep w x y st) = sent st" "sid (sleep w x y st) = sid st"
  "interceptors (sleep w x y st) = interceptors st"
  "cookie_header (sleep w x y st) = cookie_header st"
  "clock st + 1000 * x \<le> clock (sleep w x y st)"
  by (simp_all add: sleep_def)

lemma sleep_fixed: "clock (sleep w x x st) = clock st + 1000 * x"
  by (simp add: sleep_def)

lemma get_state:
  "get w st ids = (r, st1) \<Longrightarrow>
   sent st1 = sent st @ [build_request st GET (get_url ids) None (Some 3000)] \<and>
   sid st1 = sid st \<and> interceptors st1 = interceptors st \<and> clock st \<le> clock st1"
  by (auto simp: get_def split: prod.splits sum.splits body.splits
           dest: client_request_state)

lemma get_ok:
  "respond w (length (sent st)) (build_request st GET (get_url ids) None (Some 3000))
     = (ms, Inr resp) \<Longrightarrow> resp_data resp = FeedBody audios \<Longrightarrow>
   get w st ids =
     (Inr (map feed_info audios),
      st\<lparr>sent := sent st @ [build_request st GET (get_url ids) None (Some 3000)],
         clock := clock st + ms\<rparr>)"
  by (simp add: get_def client_request_ok)

lemma keepAlive_state:
  "keepAlive w st isWait = (r, st') \<Longrightarrow>
   (sent st' = sent st \<or>
    sent st' = sent st @ [build_request st POST (renewUrl (template (sid st))) None None]) \<and>
   sid st' = sid st \<and> clock st \<le> clock st'"
  by (auto simp: keepAlive_def Let_def sleep_def split: prod.splits sum.splits if_splits
           dest: client_request_state)

lemma keepAlive_done:
  "keepAlive w st True = (Inr u, st') \<Longrightarrow>
   sent st' = sent st @ [build_request st POST (renewUrl (template (sid st))) None None] \<and>
   sid st' = sid st \<and> clock st + 1000 \<le> clock st' \<and> draws st' = Suc (draws st)"
  by (auto simp: keepAlive_def Let_def sleep_def split: prod.splits sum.splits if_splits
           dest: client_request_state)

lemma keepAlive_ok:
  assumes "truthy (sid st)"
    and "respond w (length (sent st))
           (build_request st POST (renewUrl (template (sid st))) None None) = (ms, Inr resp)"
  shows "\<exists>st'. keepAlive w st True = (Inr (), st')"
  using assms by (simp add: keepAlive_def client_request_ok Let_def)

lemma allCompleted_iff:
  "allCompleted response \<longleftrightarrow>
     (\<forall>audio\<in>set response. info_status audio = str ''complete'' \<or> info_status audio = str ''streaming'')"
  by (auto simp: allCompleted_def list_all_iff)

lemma parseLyrics_Nil: "parseLyrics [] = []"
  by (simp add: parseLyrics_def trim_def)

lemma clip_info_fields:
  "info_id (clip_info a) = clip_id a"
  "info_title (clip_info a) = clip_title a"
  "info_image_url (clip_info a) = clip_image_url a"
  "info_lyric (clip_info a) = meta_prompt (clip_metadata a)"
  "info_audio_url (clip_info a) = clip_audio_url a"
  "info_video_url (clip_info a) = clip_video_url a"
  "info_created_at (clip_info a) = clip_created_at a"
  "info_model_name (clip_info a) = clip_model_name a"
  "info_gpt_description_prompt (clip_info a) = meta_gpt_description_prompt (clip_metadata a)"
  "info_prompt (clip_info a) = meta_prompt (clip_metadata a)"
  "info_status (clip_info a) = clip_status a"
  "info_type (clip_info a) = meta_type (clip_metadata a)"
  "info_tags (clip_info a) = meta_tags (clip_metadata a)"
  "info_duration (clip_info a) = meta_duration_formatted (clip_metadata a)"
  by (simp_all add: clip_info_def)

lemma feed_info_fields:
  "info_id (feed_info a) = clip_id a"
  "info_title (feed_info a) = clip_title a"
  "info_image_url (feed_info a) = clip_image_url a"
  "info_lyric (feed_info a) =
     (case meta_prompt (clip_metadata a) of
        Some raw \<Rightarrow> Some (parseLyrics raw)
      | None \<Rightarrow> Some [])"
  "info_audio_url (feed_info a) = clip_audio_url a"
  "info_video_url (feed_info a) = clip_video_url a"
  "info_created_at (feed_info a) = clip_created_at a"
  "info_model_name (feed_info a) = clip_model_name a"
  "info_gpt_description_prompt (feed_info a) = meta_gpt_description_prompt (clip_metadata a)"
  "info_prompt (feed_info a) = meta_prompt (clip_metadata a)"
  "info_status (feed_info a) = clip_status a"
  "info_type (feed_info a) = meta_type (clip_metadata a)"
  "info_tags (feed_info a) = meta_tags (clip_metadata a)"
  "info_duration (feed_info a) = meta_duration_formatted (clip_metadata a)"
  by (simp_all add: feed_info_def parseLyrics_Nil split: option.splits)

lemma nth_snoc_only:
  assumes "ys = xs @ [a]" and "length xs \<le> n" and "n < length ys"
  shows "n = length xs" and "ys ! n = a"
  using assms by (cases "n = length xs"; auto)+

lemma iteration_bound:
  fixes x y :: int
  assumes "x + 4000 \<le> y" and "0 < y"
  shows "2 + 2 * max 0 ((x + 3999) div 4000) \<le> 2 * max 0 ((y + 3999) div 4000)"
proof -
  have "(x + 3999) div 4000 \<le> (y - 4000 + 3999) div 4000"
    using assms by (intro zdiv_mono1) simp_all
  also have "(y - 4000 + 3999) div 4000 = (y + 3999) div 4000 - 1"
    by simp
  finally have a: "(x + 3999) div 4000 \<le> (y + 3999) div 4000 - 1" .
  have "4000 div 4000 \<le> (y + 3999) div (4000::int)"
    using assms by (intro zdiv_mono1) simp_all
  then have b: "1 \<le> (y + 3999) div 4000" by simp
  from a b show ?thesis by (simp add: max_def)
qed

lemma round_bound:
  fixes y :: int
  assumes "0 < y"
  shows "2 \<le> 2 * max 0 ((y + 3999) div 4000)"
proof -
  have "4000 div 4000 \<le> (y + 3999) div (4000::int)"
    using assms by (intro zdiv_mono1) simp_all
  then show ?thesis by (simp add: max_def)
qed

section \<open>The polling loop\<close>

text \<open>
  The loop is a total function: its termination proof rests on the clock alone, since every
  round that goes on sleeps at least three seconds and renews the token with a pause of at
  least one more. The lemmas below follow its recursion.
\<close>

lemma poll_loop_sent_bounded:
  "\<exists>rest. sent (snd (poll_loop w st startTime songIds lastResponse)) = sent st @ rest \<and>
      int (length rest) \<le>
        2 * max 0 ((int startTime + 100000 - int (clock st) + 3999) div 4000)"
proof (induction w st startTime songIds lastResponse rule: poll_loop.induct)
  case (1 w st startTime songIds lastResponse)
  let ?B = "\<lambda>st. 2 * max 0 ((int startTime + 100000 - int (clock st) + 3999) div 4000)"
  show ?case
  proof (cases "int (clock st) - int startTime < 100000")
    case False
    then show ?thesis by (simp add: poll_loop.simps [of w st])
  next
    case running: True
    then have "0 < int startTime + 100000 - int (clock st)" by simp
    from round_bound [OF this] have two: "2 \<le> ?B st" .
    let ?greq = "build_request st GET (get_url (Some songIds)) None (Some 3000)"
    obtain x st1 where g: "get w st (Some songIds) = (x, st1)"
      by (cases "get w st (Some songIds)")
    from get_state [OF g]
    have sent1: "sent st1 = sent st @ [?greq]" and clock1: "clock st \<le> clock st1"
      by simp_all
    have one: "\<exists>rest. sent st1 = sent st @ rest \<and> int (length rest) \<le> ?B st"
      using sent1 two by simp
    show ?thesis
    proof (cases x)
      case (Inl e)
      with running g one show ?thesis by (simp add: poll_loop.simps [of w st])
    next
      case (Inr response)
      show ?thesis
      proof (cases "allCompleted response")
        case True
        with running g one Inr show ?thesis by (simp add: poll_loop.simps [of w st])
      next
        case pending: False
        let ?st2 = "sleep w 3 6 st1"
        let ?preq = "build_request ?st2 POST (renewUrl (template (sid ?st2))) None None"
        obtain y st3 where k: "keepAlive w ?st2 True = (y, st3)"
          by (cases "keepAlive w ?st2 True")
        show ?thesis
        proof (cases y)
          case (Inl e)
          from keepAlive_state [OF k] sent1
          have "sent st3 = sent st @ [?greq] \<or> sent st3 = sent st @ [?greq, ?preq]"
            by (auto simp: sleep_state)
          then have "\<exists>rest. sent st3 = sent st @ rest \<and> int (length rest) \<le> ?B st"
            using two by auto
          with Inl running g Inr pending k show ?thesis
            by (simp add: poll_loop.simps [of w st])
        next
          case inr: (Inr u)
          from keepAlive_done [OF k [unfolded inr]] sent1
          have sent3: "sent st3 = sent st @ [?greq, ?preq]"
            and "clock ?st2 + 1000 \<le> clock st3"
            by (simp_all add: sleep_state)
          with clock1 sleep_state(5) [of st1 3 w 6]
          have clock3: "clock st + 4000 \<le> clock st3" by simp
          from "1.IH" [OF running g [symmetric] Inr pending k [symmetric] inr]
          obtain rest
            where log: "sent (snd (poll_loop w st3 startTime songIds response)) = sent st3 @ rest"
              and bound: "int (length rest) \<le> ?B st3"
            by blast
          have "int startTime + 100000 - int (clock st3) + 4000
                  \<le> int startTime + 100000 - int (clock st)"
            using clock3 by simp
          moreover have "0 < int startTime + 100000 - int (clock st)"
            using running by simp
          ultimately have "2 + ?B st3 \<le> ?B st" by (rule iteration_bound)
          with bound have "int (length (?greq # ?preq # rest)) \<le> ?B st" by simp
          moreover have "sent (snd (poll_loop w st startTime songIds lastResponse))
                           = sent st @ (?greq # ?preq # rest)"
            using running g Inr pending k inr log sent3
            by (simp add: poll_loop.simps [of w st])
          ultimately show ?thesis by blast
        qed
      qed
    qed
  qed
qed

lemma poll_loop_sent_prefix:
  "\<exists>rest. sent (snd (poll_loop w st startTime songIds lastResponse)) = sent st @ rest"
  using poll_loop_sent_bounded [of w st startTime songIds lastResponse] by blast

lemma poll_loop_returns_completed:
  assumes "int (clock st) - int startTime < 100000"
    and "get w st (Some songIds) = (Inr response, st1)"
    and "allCompleted response"
  shows "poll_loop w st startTime songIds lastResponse = (Inr response, st1)"
  using assms by (simp add: poll_loop.simps [of w st])

lemma poll_loop_completed_fetch:
  assumes "poll_loop w st startTime songIds lastResponse = (res, st')"
    and "length (sent st) \<le> n" and "n < length (sent st')"
    and "req_method (sent st' ! n) = GET"
    and "respond w n (sent st' ! n) = (ms, Inr resp)"
    and "resp_data resp = FeedBody cs"
    and "allCompleted (map feed_info cs)"
  shows "res = Inr (map feed_info cs) \<and> length (sent st') = Suc n"
  using assms
proof (induction w st startTime songIds lastResponse rule: poll_loop.induct)
  case (1 w st startTime songIds lastResponse)
  note run = "1.prems"(1)
  show ?case
  proof (cases "int (clock st) - int startTime < 100000")
    case False
    with run have "st' = st" by (simp add: poll_loop.simps [of w st])
    with "1.prems"(2,3) show ?thesis by simp
  next
    case running: True
    let ?greq = "build_request st GET (get_url (Some songIds)) None (Some 3000)"
    obtain x st1 where g: "get w st (Some songIds) = (x, st1)"
      by (cases "get w st (Some songIds)")
    from get_state [OF g] have sent1: "sent st1 = sent st @ [?greq]" by simp
    have first: "res = Inr (map feed_info cs) \<and> length (sent st') = Suc n"
      if here: "n = length (sent st)" and at: "sent st' ! n = ?greq"
    proof -
      from "1.prems"(5) here at
      have "respond w (length (sent st)) ?greq = (ms, Inr resp)" by simp
      from get_ok [OF this "1.prems"(6)] g
      have x: "x = Inr (map feed_info cs)" and st1: "sent st1 = sent st @ [?greq]"
        by simp_all
      from poll_loop_returns_completed [OF running g [unfolded x] "1.prems"(7)] run
      have "res = Inr (map feed_info cs)" "st' = st1" by simp_all
      with st1 here show ?thesis by simp
    qed
    show ?thesis
    proof (cases x)
      case (Inl e)
      with run running g have "st' = st1" by (simp add: poll_loop.simps [of w st])
      with sent1 have "sent st' = sent st @ [?greq]" by simp
      from nth_snoc_only [OF this "1.prems"(2,3)] show ?thesis by (rule first)
    next
      case (Inr response)
      show ?thesis
      proof (cases "allCompleted response")
        case True
        with run running g Inr have "st' = st1" by (simp add: poll_loop.simps [of w st])
        with sent1 have "sent st' = sent st @ [?greq]" by simp
        from nth_snoc_only [OF this "1.prems"(2,3)] show ?thesis by (rule first)
      next
        case pending: False
        let ?st2 = "sleep w 3 6 st1"
        let ?preq = "build_request ?st2 POST (renewUrl (template (sid ?st2))) None None"
        obtain y st3 where k: "keepAlive w ?st2 True = (y, st3)"
          by (cases "keepAlive w ?st2 True")
        from keepAlive_state [OF k] sent1
        have sent3: "sent st3 = sent st @ [?greq] \<or> sent st3 = sent st @ [?greq, ?preq]"
          by (auto simp: sleep_state)
        have post: "req_method ?preq = POST" by (simp add: build_request_def)
        show ?thesis
        proof (cases y)
          case (Inl e)
          with run running g Inr pending k have st': "st' = st3"
            by (simp add: poll_loop.simps [of w st])
          have "n = length (sent st) \<and> sent st' ! n = ?greq"
            using sent3
          proof
            assume "sent st3 = sent st @ [?greq]"
            with st' have "sent st' = sent st @ [?greq]" by simp
            from nth_snoc_only [OF this "1.prems"(2,3)] show ?thesis by simp
          next
            assume two: "sent st3 = sent st @ [?greq, ?preq]"
            with st' "1.prems"(2,3) have "n = length (sent st) \<or> n = Suc (length (sent st))"
              by auto
            moreover have "n \<noteq> Suc (length (sent st))"
            proof
              assume "n = Suc (length (sent st))"
              with two st' have "sent st' ! n = ?preq" by (simp add: nth_append)
              with "1.prems"(4) post show False by simp
            qed
            ultimately show ?thesis using two st' by simp
          qed
          then show ?thesis using first by blast
        next
          case inr: (Inr u)
          from keepAlive_done [OF k [unfolded inr]] sent1
          have sent3': "sent st3 = sent st @ [?greq, ?preq]" by (simp add: sleep_state)
          have next_run: "poll_loop w st3 startTime songIds response = (res, st')"
            using run running g Inr pending k inr by (simp add: poll_loop.simps [of w st])
          from poll_loop_sent_prefix [of w st3 startTime songIds response] next_run
          obtain rest where log: "sent st' = sent st @ [?greq, ?preq] @ rest"
            using sent3' by auto
          consider "n = length (sent st)" | "n = Suc (length (sent st))"
            | "length (sent st3) \<le> n"
            using "1.prems"(2) sent3' by force
          then show ?thesis
          proof cases
            case 1
            moreover from 1 log have "sent st' ! n = ?greq" by (simp add: nth_append)
            ultimately have "res = Inr (map feed_info cs) \<and> length (sent st') = Suc n"
              by (rule first)
            with 1 log show ?thesis by simp
          next
            case 2
            with log have "sent st' ! n = ?preq" by (simp add: nth_append)
            with "1.prems"(4) post show ?thesis by simp
          next
            case 3
            from "1.IH" [OF running g [symmetric] Inr pending k [symmetric] inr next_run 3
                            "1.prems"(3-7)]
            show ?thesis .
          qed
        qed
      qed
    qed
  qed
qed

lemma poll_loop_pending:
  assumes feeds: "\<forall>k req. req_method req = GET \<longrightarrow>
            (\<exists>ms resp cs. respond w k req = (ms, Inr resp) \<and> resp_data resp = FeedBody cs \<and>
                          \<not> allCompleted (map feed_info cs))"
    and renewals: "\<forall>k req. req_method req = POST \<longrightarrow>
            (\<exists>ms resp. respond w k req = (ms, Inr resp))"
    and session: "truthy (sid st)"
  shows "\<exists>xs st' rest. poll_loop w st startTime songIds lastResponse = (Inr xs, st') \<and>
           int startTime + 100000 \<le> int (clock st') \<and>
           sent st' = sent st @ rest \<and>
           int (length rest) \<le>
             2 * max 0 ((int startTime + 100000 - int (clock st) + 3999) div 4000) \<and>
           ((xs = lastResponse \<and> st' = st) \<or>
            (\<exists>n ms resp cs. length (sent st') = n + 2 \<and> length (sent st) \<le> n \<and>
               req_method (sent st' ! n) = GET \<and>
               req_url (sent st' ! n) = get_url (Some songIds) \<and>
               req_method (sent st' ! Suc n) = POST \<and>
               respond w n (sent st' ! n) = (ms, Inr resp) \<and>
               resp_data resp = FeedBody cs \<and> xs = map feed_info cs))"
  using feeds renewals session
proof (induction w st startTime songIds lastResponse rule: poll_loop.induct)
  case (1 w st startTime songIds lastResponse)
  show ?case
  proof (cases "int (clock st) - int startTime < 100000")
    case False
    then have "poll_loop w st startTime songIds lastResponse = (Inr lastResponse, st)"
      by (simp add: poll_loop.simps [of w st])
    moreover from False have "int startTime + 100000 \<le> int (clock st)" by simp
    ultimately show ?thesis by simp
  next
    case running: True
    let ?greq = "build_request st GET (get_url (Some songIds)) None (Some 3000)"
    have "req_method ?greq = GET" by (simp add: build_request_def)
    with "1.prems"(1) obtain ms resp cs
      where r: "respond w (length (sent st)) ?greq = (ms, Inr resp)"
        and d: "resp_data resp = FeedBody cs"
        and pending: "\<not> allCompleted (map feed_info cs)"
      by blast
    let ?st1 = "st\<lparr>sent := sent st @ [?greq], clock := clock st + ms\<rparr>"
    have g: "get w st (Some songIds) = (Inr (map feed_info cs), ?st1)"
      using get_ok [OF r d] .
    let ?st2 = "sleep w 3 6 ?st1"
    let ?preq = "build_request ?st2 POST (renewUrl (template (sid ?st2))) None None"
    have sid2: "truthy (sid ?st2)" using "1.prems"(3) by (simp add: sleep_state)
    have "req_method ?preq = POST" by (simp add: build_request_def)
    with "1.prems"(2) obtain ms' resp'
      where r': "respond w (length (sent ?st2)) ?preq = (ms', Inr resp')"
      by blast
    from keepAlive_ok [OF sid2 r'] obtain st3
      where k: "keepAlive w ?st2 True = (Inr (), st3)" by blast
    from keepAlive_done [OF k]
    have sent3: "sent st3 = sent st @ [?greq, ?preq]"
      and sid3: "truthy (sid st3)"
      and clock3: "clock st + 4000 \<le> clock st3"
      using sid2 sleep_state(5) [of ?st1 3 w 6] by (simp_all add: sleep_state)
    have unfold: "poll_loop w st startTime songIds lastResponse =
                    poll_loop w st3 startTime songIds (map feed_info cs)"
      using running g pending k by (simp add: poll_loop.simps [of w st])
    from "1.IH" [OF running g [symmetric] refl pending k [symmetric] refl
                    "1.prems"(1) "1.prems"(2) sid3]
    obtain xs st' rest
      where run: "poll_loop w st3 startTime songIds (map feed_info cs) = (Inr xs, st')"
        and late: "int startTime + 100000 \<le> int (clock st')"
        and log: "sent st' = sent st3 @ rest"
        and bound: "int (length rest) \<le>
                      2 * max 0 ((int startTime + 100000 - int (clock st3) + 3999) div 4000)"
        and last: "(xs = map feed_info cs \<and> st' = st3) \<or>
            (\<exists>n ms resp cs. length (sent st') = n + 2 \<and> length (sent st3) \<le> n \<and>
               req_method (sent st' ! n) = GET \<and>
               req_url (sent st' ! n) = get_url (Some songIds) \<and>
               req_method (sent st' ! Suc n) = POST \<and>
               respond w n (sent st' ! n) = (ms, Inr resp) \<and>
               resp_data resp = FeedBody cs \<and> xs = map feed_info cs)"
      by blast
    have log': "sent st' = sent st @ (?greq # ?preq # rest)"
      using log sent3 by simp
    have bound': "int (length (?greq # ?preq # rest)) \<le>
                    2 * max 0 ((int startTime + 100000 - int (clock st) + 3999) div 4000)"
    proof -
      have "int startTime + 100000 - int (clock st3) + 4000
              \<le> int startTime + 100000 - int (clock st)"
        using clock3 by simp
      moreover have "0 < int startTime + 100000 - int (clock st)"
        using running by simp
      ultimately have "2 + 2 * max 0 ((int startTime + 100000 - int (clock st3) + 3999) div 4000)
              \<le> 2 * max 0 ((int startTime + 100000 - int (clock st) + 3999) div 4000)"
        by (rule iteration_bound)
      with bound show ?thesis by simp
    qed
    have last': "\<exists>n ms resp cs. length (sent st') = n + 2 \<and> length (sent st) \<le> n \<and>
               req_method (sent st' ! n) = GET \<and>
               req_url (sent st' ! n) = get_url (Some songIds) \<and>
               req_method (sent st' ! Suc n) = POST \<and>
               respond w n (sent st' ! n) = (ms, Inr resp) \<and>
               resp_data resp = FeedBody cs \<and> xs = map feed_info cs"
      using last
    proof
      assume now: "xs = map feed_info cs \<and> st' = st3"
      have "length (sent st') = length (sent st) + 2" using now sent3 by simp
      moreover have "sent st' ! length (sent st) = ?greq" using now sent3 by simp
      moreover have "sent st' ! Suc (length (sent st)) = ?preq"
        using now sent3 by (simp add: nth_append)
      moreover have "req_url ?greq = get_url (Some songIds)" by (simp add: build_request_def)
      ultimately show ?thesis
        using r d now \<open>req_method ?greq = GET\<close> \<open>req_method ?preq = POST\<close>
        by (intro exI [of _ "length (sent st)"] exI [of _ ms] exI [of _ resp] exI [of _ cs])
           simp
    next
      assume "\<exists>n ms resp cs. length (sent st') = n + 2 \<and> length (sent st3) \<le> n \<and>
               req_method (sent st' ! n) = GET \<and>
               req_url (sent st' ! n) = get_url (Some songIds) \<and>
               req_method (sent st' ! Suc n) = POST \<and>
               respond w n (sent st' ! n) = (ms, Inr resp) \<and>
               resp_data resp = FeedBody cs \<and> xs = map feed_info cs"
      then obtain n ms resp cs where *: "length (sent st') = n + 2" "length (sent st3) \<le> n"
               "req_method (sent st' ! n) = GET"
               "req_url (sent st' ! n) = get_url (Some songIds)"
               "req_method (sent st' ! Suc n) = POST"
               "respond w n (sent st' ! n) = (ms, Inr resp)"
               "resp_data resp = FeedBody cs" "xs = map feed_info cs"
        by blast
      from *(2) sent3 have "length (sent st) \<le> n" by simp
      with * show ?thesis by blast
    qed
    show ?thesis
      using unfold run late log' bound' last' by (intro exI [of _ xs] exI [of _ st'] exI [of _ "?greq # ?preq # rest"]) simp
  qed
qed

lemma generateSongs_wait_run:
  assumes "generateSongs w st prompt isCustom tags title make_instrumental True = (res, st')"
  obtains x where "client_request w st POST (BASE_URL @ str ''/api/generate/v2/'')
                    (Some (build_payload prompt isCustom tags title make_instrumental))
                    (Some 10000) = (x, st')"
  | x st1 and clips :: "clip list" where "client_request w st POST (BASE_URL @ str ''/api/generate/v2/'')
                    (Some (build_payload prompt isCustom tags title make_instrumental))
                    (Some 10000) = (x, st1)"
      "poll_loop w (sleep w 5 5 st1) (clock st1) (map clip_id clips) [] = (res, st')"
proof -
  obtain x st1
    where c: "client_request w st POST (BASE_URL @ str ''/api/generate/v2/'')
                (Some (build_payload prompt isCustom tags title make_instrumental))
                (Some 10000) = (x, st1)"
    by (cases "client_request w st POST (BASE_URL @ str ''/api/generate/v2/'')
                (Some (build_payload prompt isCustom tags title make_instrumental))
                (Some 10000)")
  show thesis
  proof (cases "\<exists>response clips. x = Inr response \<and> resp_status response = 200 \<and>
                  resp_data response = ClipsBody clips")
    case True
    then obtain response clips
      where "x = Inr response" "resp_status response = 200" "resp_data response = ClipsBody clips"
      by blast
    with assms c
    have "poll_loop w (sleep w 5 5 st1) (clock st1) (map clip_id clips) [] = (res, st')"
      by (simp add: generateSongs_def)
    with c show thesis by (rule that(2))
  next
    case False
    with assms c have "st' = st1"
      by (auto simp: generateSongs_def split: sum.splits if_splits body.splits)
    with c show thesis using that(1) by blast
  qed
qed

lemma generateSongs_wait_bounded:
  "length (sent (snd (generateSongs w st prompt isCustom tags title make_instrumental True)))
     \<le> length (sent st) + 49"
proof -
  let ?run = "generateSongs w st prompt isCustom tags title make_instrumental True"
  have "?run = (fst ?run, snd ?run)" by simp
  then show ?thesis
  proof (rule generateSongs_wait_run)
    fix x
    assume "client_request w st POST (BASE_URL @ str ''/api/generate/v2/'')
                (Some (build_payload prompt isCustom tags title make_instrumental))
                (Some 10000) = (x, snd ?run)"
    from client_request_state [OF this] show ?thesis by simp
  next
    fix x st1 and clips :: "clip list"
    assume c: "client_request w st POST (BASE_URL @ str ''/api/generate/v2/'')
                (Some (build_payload prompt isCustom tags title make_instrumental))
                (Some 10000) = (x, st1)"
      and run: "poll_loop w (sleep w 5 5 st1) (clock st1) (map clip_id clips) []
                  = (fst ?run, snd ?run)"
    from client_request_state [OF c] have sent1: "length (sent st1) = length (sent st) + 1"
      by simp
    from poll_loop_sent_bounded [of w "sleep w 5 5 st1" "clock st1" "map clip_id clips" "[]"] run
    obtain rest where log: "sent (snd ?run) = sent (sleep w 5 5 st1) @ rest"
      and bound: "int (length rest) \<le>
        2 * max 0 ((int (clock st1) + 100000 - int (clock (sleep w 5 5 st1)) + 3999) div 4000)"
      by auto
    have elapsed: "int (clock st1) + 100000 - int (clock (sleep w 5 5 st1)) + 3999 = 98999"
      by (simp add: sleep_fixed)
    have "int (length rest) \<le> 2 * max 0 (98999 div 4000)"
      using bound unfolding elapsed .
    then have "length rest \<le> 48" by simp
    with log sent1 show ?thesis by (simp add: sleep_state)
  qed
qed

lemma generateSongs_sent_prefix:
  "\<exists>rest. sent (snd (generateSongs w st prompt isCustom tags title make_instrumental wait_audio))
      = sent st @
        build_request st POST (BASE_URL @ str ''/api/generate/v2/'')
          (Some (build_payload prompt isCustom tags title make_instrumental)) (Some 10000)
        # rest"
proof -
  let ?sreq = "build_request st POST (BASE_URL @ str ''/api/generate/v2/'')
                 (Some (build_payload prompt isCustom tags title make_instrumental))
                 (Some 10000)"
  obtain x st1
    where c: "client_request w st POST (BASE_URL @ str ''/api/generate/v2/'')
                (Some (build_payload prompt isCustom tags title make_instrumental))
                (Some 10000) = (x, st1)"
    by (cases "client_request w st POST (BASE_URL @ str ''/api/generate/v2/'')
                (Some (build_payload prompt isCustom tags title make_instrumental))
                (Some 10000)")
  from client_request_state [OF c] have sent1: "sent st1 = sent st @ [?sreq]" by simp
  have loop: "\<exists>rest. sent (snd (poll_loop w (sleep w 5 5 st1) (clock st1) ids [])) =
                  sent st @ ?sreq # rest" for ids
    using poll_loop_sent_prefix [of w "sleep w 5 5 st1" "clock st1" ids "[]"] sent1
    by (auto simp: sleep_state)
  have renew: "\<exists>rest. sent (snd (keepAlive w st1 True)) = sent st @ ?sreq # rest"
    using keepAlive_state [of w st1 True "fst (keepAlive w st1 True)" "snd (keepAlive w st1 True)"]
      sent1 by auto
  show ?thesis
    using c sent1 loop renew
    by (auto simp: generateSongs_def Let_def split: prod.splits sum.splits body.splits)
qed

lemma generateSongs_pending_run:
  assumes session: "truthy (sid st)"
    and submitted: "respond w (length (sent st))
             (build_request st POST (BASE_URL @ str ''/api/generate/v2/'')
                (Some (build_payload prompt isCustom tags title make_instrumental))
                (Some 10000)) = (ms, Inr response)"
    and accepted: "resp_status response = 200" "resp_data response = ClipsBody clips"
    and feeds: "\<forall>k req. req_method req = GET \<longrightarrow>
            (\<exists>ms resp cs. respond w k req = (ms, Inr resp) \<and> resp_data resp = FeedBody cs \<and>
                          \<not> allCompleted (map feed_info cs))"
    and renewals: "\<forall>k req. req_method req = POST \<longrightarrow>
            (\<exists>ms resp. respond w k req = (ms, Inr resp))"
  shows "\<exists>fetched st'.
           generateSongs w st prompt isCustom tags title make_instrumental True
             = (Inr fetched, st') \<and>
           clock st + ms + 100000 \<le> clock st' \<and>
           length (sent st') \<le> length (sent st) + 49 \<and>
           \<not> allCompleted fetched \<and>
           (\<exists>n ms' resp cs. length (sent st') = n + 2 \<and> length (sent st) < n \<and>
               req_method (sent st' ! n) = GET \<and>
               req_url (sent st' ! n) = get_url (Some (map clip_id clips)) \<and>
               req_method (sent st' ! Suc n) = POST \<and>
               respond w n (sent st' ! n) = (ms', Inr resp) \<and>
               resp_data resp = FeedBody cs \<and> fetched = map feed_info cs)"
proof -
  let ?sreq = "build_request st POST (BASE_URL @ str ''/api/generate/v2/'')
                 (Some (build_payload prompt isCustom tags title make_instrumental))
                 (Some 10000)"
  let ?st1 = "st\<lparr>sent := sent st @ [?sreq], clock := clock st + ms\<rparr>"
  let ?st2 = "sleep w 5 5 ?st1"
  have unfold: "generateSongs w st prompt isCustom tags title make_instrumental True
                  = poll_loop w ?st2 (clock ?st1) (map clip_id clips) []"
    using accepted by (simp add: generateSongs_def client_request_ok [OF submitted])
  have sid2: "truthy (sid ?st2)" using session by (simp add: sleep_state)
  have clock2: "clock ?st2 = clock st + ms + 5000" by (simp add: sleep_fixed)
  have sent2: "sent ?st2 = sent st @ [?sreq]" by (simp add: sleep_state)
  from poll_loop_pending [OF feeds renewals sid2, of "clock ?st1" "map clip_id clips" "[]"]
  obtain xs st' rest
    where run: "poll_loop w ?st2 (clock ?st1) (map clip_id clips) [] = (Inr xs, st')"
      and late: "int (clock ?st1) + 100000 \<le> int (clock st')"
      and log: "sent st' = sent ?st2 @ rest"
      and bound: "int (length rest) \<le>
                    2 * max 0 ((int (clock ?st1) + 100000 - int (clock ?st2) + 3999) div 4000)"
      and last: "(xs = [] \<and> st' = ?st2) \<or>
            (\<exists>n ms resp cs. length (sent st') = n + 2 \<and> length (sent ?st2) \<le> n \<and>
               req_method (sent st' ! n) = GET \<and>
               req_url (sent st' ! n) = get_url (Some (map clip_id clips)) \<and>
               req_method (sent st' ! Suc n) = POST \<and>
               respond w n (sent st' ! n) = (ms, Inr resp) \<and>
               resp_data resp = FeedBody cs \<and> xs = map feed_info cs)"
    by blast
  have "st' \<noteq> ?st2"
  proof
    assume "st' = ?st2"
    with late clock2 show False by simp
  qed
  with last obtain n ms' resp cs
    where f: "length (sent st') = n + 2" "length (sent ?st2) \<le> n"
      "req_method (sent st' ! n) = GET"
      "req_url (sent st' ! n) = get_url (Some (map clip_id clips))"
      "req_method (sent st' ! Suc n) = POST"
      "respond w n (sent st' ! n) = (ms', Inr resp)"
      "resp_data resp = FeedBody cs" "xs = map feed_info cs"
    by blast
  from feeds f(3) obtain ms2 resp2 cs2
    where "respond w n (sent st' ! n) = (ms2, Inr resp2)" "resp_data resp2 = FeedBody cs2"
      "\<not> allCompleted (map feed_info cs2)"
    by blast
  with f(6,7,8) have pending: "\<not> allCompleted xs" by simp
  have elapsed: "int (clock ?st1) + 100000 - int (clock ?st2) + 3999 = 98999"
    using clock2 by simp
  have "int (length rest) \<le> 2 * max 0 (98999 div 4000)"
    using bound unfolding elapsed .
  then have "length rest \<le> 48" by simp
  with log sent2 have count: "length (sent st') \<le> length (sent st) + 49" by simp
  from f(2) sent2 have after: "length (sent st) < n" by simp
  from late have deadline: "clock st + ms + 100000 \<le> clock st'" by simp
  have result: "generateSongs w st prompt isCustom tags title make_instrumental True
                  = (Inr xs, st')"
    using unfold run by simp
  have fetch: "\<exists>n ms' resp cs. length (sent st') = n + 2 \<and> length (sent st) < n \<and>
               req_method (sent st' ! n) = GET \<and>
               req_url (sent st' ! n) = get_url (Some (map clip_id clips)) \<and>
               req_method (sent st' ! Suc n) = POST \<and>
               respond w n (sent st' ! n) = (ms', Inr resp) \<and>
               resp_data resp = FeedBody cs \<and> xs = map feed_info cs"
    using after f by blast
  from result deadline count pending fetch show ?thesis by blast
qed

section \<open>Claims about waiting for completion\<close>

text \<open>
  C1: when \<open>generateSongs\<close> waits (\<open>wait_audio = True\<close>) and one of its feed fetches is
  answered with a list in which every job has status \<open>complete\<close> or \<open>streaming\<close>, the
  loop ends on that round: the fetch is the last request of the call, and the call returns
  exactly the list mapped from that answer, whatever list earlier rounds had recorded.
\<close>

theorem generateSongs_returns_completed_fetch:
  assumes "generateSongs w st prompt isCustom tags title make_instrumental True = (res, st')"
    and "length (sent st) \<le> n" and "n < length (sent st')"
    and "req_method (sent st' ! n) = GET"
    and "respond w n (sent st' ! n) = (ms, Inr resp)"
    and "resp_data resp = FeedBody cs"
    and "\<forall>audio\<in>set (map feed_info cs).
           info_status audio = str ''complete'' \<or> info_status audio = str ''streaming''"
  shows "res = Inr (map feed_info cs) \<and> length (sent st') = Suc n"
proof -
  let ?sreq = "build_request st POST (BASE_URL @ str ''/api/generate/v2/'')
                 (Some (build_payload prompt isCustom tags title make_instrumental))
                 (Some 10000)"
  have post: "req_method ?sreq = POST" by (simp add: build_request_def)
  from assms(1) show ?thesis
  proof (rule generateSongs_wait_run)
    fix x
    assume "client_request w st POST (BASE_URL @ str ''/api/generate/v2/'')
                (Some (build_payload prompt isCustom tags title make_instrumental))
                (Some 10000) = (x, st')"
    from client_request_state [OF this] have "sent st' = sent st @ [?sreq]" by simp
    from nth_snoc_only(2) [OF this assms(2,3)] have "sent st' ! n = ?sreq" .
    with assms(4) post show ?thesis by simp
  next
    fix x st1 and clips :: "clip list"
    assume c: "client_request w st POST (BASE_URL @ str ''/api/generate/v2/'')
                (Some (build_payload prompt isCustom tags title make_instrumental))
                (Some 10000) = (x, st1)"
      and run: "poll_loop w (sleep w 5 5 st1) (clock st1) (map clip_id clips) [] = (res, st')"
    from client_request_state [OF c] have sent1: "sent st1 = sent st @ [?sreq]" by simp
    from poll_loop_sent_prefix [of w "sleep w 5 5 st1" "clock st1" "map clip_id clips" "[]"]
      run sent1
    obtain rest where log: "sent st' = sent st @ [?sreq] @ rest"
      by (auto simp: sleep_state)
    have "n \<noteq> length (sent st)"
    proof
      assume "n = length (sent st)"
      with log have "sent st' ! n = ?sreq" by (simp add: nth_append)
      with assms(4) post show False by simp
    qed
    with assms(2) sent1 have "length (sent (sleep w 5 5 st1)) \<le> n"
      by (simp add: sleep_state)
    from poll_loop_completed_fetch [OF run this assms(3-6)] assms(7)
    show ?thesis by (simp add: allCompleted_iff)
  qed
qed

theorem generateSongs_returns_completed_fetch_witness:
  "(let job = (\<lambda>status. \<lparr>clip_id = str ''a1'', clip_title = None, clip_image_url = None,
             clip_metadata = \<lparr>meta_prompt = None, meta_gpt_description_prompt = None,
               meta_type = None, meta_tags = None, meta_duration_formatted = None\<rparr>,
             clip_audio_url = None, clip_video_url = None, clip_created_at = str ''t0'',
             clip_model_name = str ''chirp-v3'', clip_status = status\<rparr>);
        w = \<lparr>respond = (\<lambda>k req. (0, Inr \<lparr>resp_status = 200, resp_statusText = str ''OK'',
                 resp_data = (if req_method req = GET then FeedBody [job (str ''complete'')]
                              else ClipsBody [job (str ''submitted'')])\<rparr>)),
             random = (\<lambda>k. 0)\<rparr>;
        st = new_SunoApi (str ''cookie'') 0;
        (res, st') = generateSongs w st (str ''a calm piano piece'') False None None (Some False) True
    in length (sent st) \<le> 1 \<and> 1 < length (sent st') \<and> req_method (sent st' ! 1) = GET \<and>
       respond w 1 (sent st' ! 1) =
         (0, Inr \<lparr>resp_status = 200, resp_statusText = str ''OK'',
                  resp_data = FeedBody [job (str ''complete'')]\<rparr>) \<and>
       res = Inr (map feed_info [job (str ''complete'')]) \<and> length (sent st') = Suc 1)"
proof -
  let ?job = "\<lambda>status. \<lparr>clip_id = str ''a1'', clip_title = None, clip_image_url = None,
             clip_metadata = \<lparr>meta_prompt = None, meta_gpt_description_prompt = None,
               meta_type = None, meta_tags = None, meta_duration_formatted = None\<rparr>,
             clip_audio_url = None, clip_video_url = None, clip_created_at = str ''t0'',
             clip_model_name = str ''chirp-v3'', clip_status = status\<rparr>"
  let ?w = "\<lparr>respond = (\<lambda>k req. (0, Inr \<lparr>resp_status = 200, resp_statusText = str ''OK'',
                 resp_data = (if req_method req = GET then FeedBody [?job (str ''complete'')]
                              else ClipsBody [?job (str ''submitted'')])\<rparr>)),
             random = (\<lambda>k. 0)\<rparr>"
  let ?st = "new_SunoApi (str ''cookie'') 0"
  let ?run = "generateSongs ?w ?st (str ''a calm piano piece'') False None None (Some False) True"
  have log: "sent (snd ?run) =
               [build_request ?st POST (BASE_URL @ str ''/api/generate/v2/'')
                  (Some (build_payload (str ''a calm piano piece'') False None None (Some False)))
                  (Some 10000),
                build_request ?st GET (get_url (Some [str ''a1''])) None (Some 3000)]"
    by (simp add: generateSongs_def client_request_def build_request_def new_SunoApi_def
          sleep_def get_def poll_loop.simps allCompleted_def feed_info_def Let_def)
  have h1: "?run = (fst ?run, snd ?run)" by simp
  have h2: "length (sent ?st) \<le> 1" by (simp add: new_SunoApi_def)
  have h3: "1 < length (sent (snd ?run))" by (simp add: log)
  have h4: "req_method (sent (snd ?run) ! 1) = GET" by (simp add: log build_request_def)
  have h5: "respond ?w 1 (sent (snd ?run) ! 1) =
         (0, Inr \<lparr>resp_status = 200, resp_statusText = str ''OK'',
                  resp_data = FeedBody [?job (str ''complete'')]\<rparr>)"
    by (simp add: log build_request_def)
  have h6: "resp_data \<lparr>resp_status = 200, resp_statusText = str ''OK'',
                  resp_data = FeedBody [?job (str ''complete'')]\<rparr> = FeedBody [?job (str ''complete'')]"
    by simp
  have h7: "\<forall>audio\<in>set (map feed_info [?job (str ''complete'')]).
           info_status audio = str ''complete'' \<or> info_status audio = str ''streaming''"
    by (simp add: feed_info_def)
  from generateSongs_returns_completed_fetch [OF h1 h2 h3 h4 h5 h6 h7] h2 h3 h4 h5
  show ?thesis by (simp add: Let_def split_beta)
qed

text \<open>
  C2: a call of \<open>generateSongs\<close> that waits always comes to an end: whatever the
  network answers, it sends at most 49 requests (the submission and at most 24 rounds of a
  fetch and a renewal, each round taking at least four seconds of the 95 that remain after
  the first pause). When the jobs never all reach a terminal status (the submission is
  accepted, every fetch succeeds and reports some job pending, every renewal succeeds),
  the call returns a list, not an error: at that moment at least 100 seconds have passed
  on the clock since the loop was entered, and the list returned is the one mapped from
  the answer to the last fetch, which is still incomplete.
\<close>

theorem generateSongs_deadline:
  "length (sent (snd (generateSongs w st prompt isCustom tags title make_instrumental True)))
     \<le> length (sent st) + 49 \<and>
   (truthy (sid st) \<and>
    respond w (length (sent st))
      (build_request st POST (BASE_URL @ str ''/api/generate/v2/'')
         (Some (build_payload prompt isCustom tags title make_instrumental))
         (Some 10000)) = (ms, Inr response) \<and>
    resp_status response = 200 \<and> resp_data response = ClipsBody clips \<and>
    (\<forall>k req. req_method req = GET \<longrightarrow>
       (\<exists>ms resp cs. respond w k req = (ms, Inr resp) \<and> resp_data resp = FeedBody cs \<and>
                     \<not> allCompleted (map feed_info cs))) \<and>
    (\<forall>k req. req_method req = POST \<longrightarrow> (\<exists>ms resp. respond w k req = (ms, Inr resp)))
    \<longrightarrow>
    (\<exists>fetched st'.
       generateSongs w st prompt isCustom tags title make_instrumental True
         = (Inr fetched, st') \<and>
       clock st + ms + 100000 \<le> clock st' \<and>
       \<not> allCompleted fetched \<and>
       (\<exists>n ms' resp cs. length (sent st') = n + 2 \<and> length (sent st) < n \<and>
           req_method (sent st' ! n) = GET \<and>
           req_url (sent st' ! n) = get_url (Some (map clip_id clips)) \<and>
           req_method (sent st' ! Suc n) = POST \<and>
           respond w n (sent st' ! n) = (ms', Inr resp) \<and>
           resp_data resp = FeedBody cs \<and> fetched = map feed_info cs)))"
proof (intro conjI impI)
  show "length (sent (snd (generateSongs w st prompt isCustom tags title make_instrumental True)))
          \<le> length (sent st) + 49"
    by (rule generateSongs_wait_bounded)
next
  assume h: "truthy (sid st) \<and>
    respond w (length (sent st))
      (build_request st POST (BASE_URL @ str ''/api/generate/v2/'')
         (Some (build_payload prompt isCustom tags title make_instrumental))
         (Some 10000)) = (ms, Inr response) \<and>
    resp_status response = 200 \<and> resp_data response = ClipsBody clips \<and>
    (\<forall>k req. req_method req = GET \<longrightarrow>
       (\<exists>ms resp cs. respond w k req = (ms, Inr resp) \<and> resp_data resp = FeedBody cs \<and>
                     \<not> allCompleted (map feed_info cs))) \<and>
    (\<forall>k req. req_method req = POST \<longrightarrow> (\<exists>ms resp. respond w k req = (ms, Inr resp)))"
  then have "truthy (sid st)"
    and "respond w (length (sent st))
      (build_request st POST (BASE_URL @ str ''/api/generate/v2/'')
         (Some (build_payload prompt isCustom tags title make_instrumental))
         (Some 10000)) = (ms, Inr response)"
    and "resp_status response = 200" and "resp_data response = ClipsBody clips"
    and "\<forall>k req. req_method req = GET \<longrightarrow>
       (\<exists>ms resp cs. respond w k req = (ms, Inr resp) \<and> resp_data resp = FeedBody cs \<and>
                     \<not> allCompleted (map feed_info cs))"
    and "\<forall>k req. req_method req = POST \<longrightarrow> (\<exists>ms resp. respond w k req = (ms, Inr resp))"
    by blast+
  from generateSongs_pending_run [OF this]
  show "\<exists>fetched st'.
       generateSongs w st prompt isCustom tags title make_instrumental True
         = (Inr fetched, st') \<and>
       clock st + ms + 100000 \<le> clock st' \<and>
       \<not> allCompleted fetched \<and>
       (\<exists>n ms' resp cs. length (sent st') = n + 2 \<and> length (sent st) < n \<and>
           req_method (sent st' ! n) = GET \<and>
           req_url (sent st' ! n) = get_url (Some (map clip_id clips)) \<and>
           req_method (sent st' ! Suc n) = POST \<and>
           respond w n (sent st' ! n) = (ms', Inr resp) \<and>
           resp_data resp = FeedBody cs \<and> fetched = map feed_info cs)"
    by blast
qed

theorem generateSongs_deadline_witness:
  "(let job = \<lparr>clip_id = str ''a1'', clip_title = None, clip_image_url = None,
             clip_metadata = \<lparr>meta_prompt = None, meta_gpt_description_prompt = None,
               meta_type = None, meta_tags = None, meta_duration_formatted = None\<rparr>,
             clip_audio_url = None, clip_video_url = None, clip_created_at = str ''t0'',
             clip_model_name = str ''chirp-v3'', clip_status = (str ''queued'')\<rparr>;
        w = \<lparr>respond = (\<lambda>k req. (0, Inr \<lparr>resp_status = 200, resp_statusText = str ''OK'',
                 resp_data = (if req_method req = GET then FeedBody [job]
                              else ClipsBody [job])\<rparr>)),
             random = (\<lambda>k. 0)\<rparr>;
        st = (new_SunoApi (str ''cookie'') 0)\<lparr>sid := Some (str ''sess'')\<rparr>
    in truthy (sid st) \<and>
       (\<exists>fetched st'.
          generateSongs w st (str ''a calm piano piece'') False None None (Some False) True
            = (Inr fetched, st') \<and>
          100000 \<le> clock st' \<and> length (sent st') \<le> 49 \<and> fetched = [feed_info job]))"
proof -
  let ?job = "\<lparr>clip_id = str ''a1'', clip_title = None, clip_image_url = None,
             clip_metadata = \<lparr>meta_prompt = None, meta_gpt_description_prompt = None,
               meta_type = None, meta_tags = None, meta_duration_formatted = None\<rparr>,
             clip_audio_url = None, clip_video_url = None, clip_created_at = str ''t0'',
             clip_model_name = str ''chirp-v3'', clip_status = (str ''queued'')\<rparr>"
  let ?w = "\<lparr>respond = (\<lambda>k req. (0, Inr \<lparr>resp_status = 200, resp_statusText = str ''OK'',
                 resp_data = (if req_method req = GET then FeedBody [?job]
                              else ClipsBody [?job])\<rparr>)),
             random = (\<lambda>k. 0)\<rparr>"
  let ?st = "(new_SunoApi (str ''cookie'') 0)\<lparr>sid := Some (str ''sess'')\<rparr>"
  have h1: "truthy (sid ?st)" by simp
  have h2: "respond ?w (length (sent ?st))
             (build_request ?st POST (BASE_URL @ str ''/api/generate/v2/'')
                (Some (build_payload (str ''a calm piano piece'') False None None (Some False)))
                (Some 10000))
             = (0, Inr \<lparr>resp_status = 200, resp_statusText = str ''OK'',
                        resp_data = ClipsBody [?job]\<rparr>)"
    by (simp add: build_request_def)
  have h3: "resp_status \<lparr>resp_status = 200, resp_statusText = str ''OK'',
                        resp_data = ClipsBody [?job]\<rparr> = 200"
    by simp
  have h4: "resp_data \<lparr>resp_status = 200, resp_statusText = str ''OK'',
                        resp_data = ClipsBody [?job]\<rparr> = ClipsBody [?job]"
    by simp
  have h5: "\<forall>k req. req_method req = GET \<longrightarrow>
            (\<exists>ms resp cs. respond ?w k req = (ms, Inr resp) \<and> resp_data resp = FeedBody cs \<and>
                          \<not> allCompleted (map feed_info cs))"
    by (simp add: allCompleted_def feed_info_def)
  have h6: "\<forall>k req. req_method req = POST \<longrightarrow>
            (\<exists>ms resp. respond ?w k req = (ms, Inr resp))"
    by simp
  from generateSongs_deadline
         [of ?w ?st "str ''a calm piano piece''" False None None "Some False" 0
             "\<lparr>resp_status = 200, resp_statusText = str ''OK'', resp_data = ClipsBody [?job]\<rparr>"
             "[?job]"]
       h1 h2 h3 h4 h5 h6
  obtain fetched st' n ms' resp cs
    where run: "generateSongs ?w ?st (str ''a calm piano piece'') False None None (Some False) True
                  = (Inr fetched, st')"
      and late: "clock ?st + 0 + 100000 \<le> clock st'"
      and fetch: "req_method (sent st' ! n) = GET"
        "respond ?w n (sent st' ! n) = (ms', Inr resp)"
        "resp_data resp = FeedBody cs" "fetched = map feed_info cs"
    by blast
  from fetch have "fetched = [feed_info ?job]" by auto
  moreover
  from generateSongs_wait_bounded
         [of ?w ?st "str ''a calm piano piece''" False None None "Some False"] run
  have "length (sent st') \<le> 49" by (simp add: new_SunoApi_def)
  ultimately show ?thesis
    using run late h1 by (simp add: Let_def new_SunoApi_def)
qed

text \<open>
  C10: in the loop, a fetch answered with an empty array ends the loop on that round: the
  loop returns the empty list, whatever list was recorded before, and the fetch is the
  only request of the round (no pause, no renewal).
\<close>

theorem poll_loop_empty_fetch:
  assumes "int (clock st) - int startTime < 100000"
    and "respond w (length (sent st))
           (build_request st GET (get_url (Some songIds)) None (Some 3000)) = (ms, Inr resp)"
    and "resp_data resp = FeedBody []"
  shows "poll_loop w st startTime songIds lastResponse =
           (Inr [],
            st\<lparr>sent := sent st @ [build_request st GET (get_url (Some songIds)) None (Some 3000)],
               clock := clock st + ms\<rparr>)"
  using assms(1) get_ok [OF assms(2,3)]
  by (simp add: poll_loop.simps [of w st] allCompleted_def)

theorem poll_loop_empty_fetch_witness:
  "(let w = \<lparr>respond = (\<lambda>k req. (250, Inr \<lparr>resp_status = 200, resp_statusText = str ''OK'',
                                              resp_data = FeedBody []\<rparr>)),
             random = (\<lambda>k. 0)\<rparr>;
        st = (new_SunoApi (str ''cookie'') 5000)\<lparr>sid := Some (str ''sess'')\<rparr>
    in int (clock st) - int 0 < 100000 \<and>
       poll_loop w st 0 [str ''a1''] [feed_info \<lparr>clip_id = str ''a1'', clip_title = None, clip_image_url = None,
             clip_metadata = \<lparr>meta_prompt = None, meta_gpt_description_prompt = None,
               meta_type = None, meta_tags = None, meta_duration_formatted = None\<rparr>,
             clip_audio_url = None, clip_video_url = None, clip_created_at = str ''t0'',
             clip_model_name = str ''chirp-v3'', clip_status = (str ''queued'')\<rparr>] =
         (Inr [],
          st\<lparr>sent := [build_request st GET (get_url (Some [str ''a1''])) None (Some 3000)],
             clock := 5250\<rparr>))"
proof -
  let ?w = "\<lparr>respond = (\<lambda>k req. (250, Inr \<lparr>resp_status = 200, resp_statusText = str ''OK'',
                                              resp_data = FeedBody []\<rparr>)),
             random = (\<lambda>k. 0)\<rparr>"
  let ?st = "(new_SunoApi (str ''cookie'') 5000)\<lparr>sid := Some (str ''sess'')\<rparr>"
  have h1: "int (clock ?st) - int 0 < 100000" by (simp add: new_SunoApi_def)
  have h2: "respond ?w (length (sent ?st))
              (build_request ?st GET (get_url (Some [str ''a1''])) None (Some 3000))
              = (250, Inr \<lparr>resp_status = 200, resp_statusText = str ''OK'',
                           resp_data = FeedBody []\<rparr>)"
    by simp
  have h3: "resp_data \<lparr>resp_status = 200, resp_statusText = str ''OK'',
                           resp_data = FeedBody []\<rparr> = FeedBody []"
    by simp
  from poll_loop_empty_fetch [OF h1 h2 h3, of "[feed_info \<lparr>clip_id = str ''a1'', clip_title = None, clip_image_url = None,
             clip_metadata = \<lparr>meta_prompt = None, meta_gpt_description_prompt = None,
               meta_type = None, meta_tags = None, meta_duration_formatted = None\<rparr>,
             clip_audio_url = None, clip_video_url = None, clip_created_at = str ''t0'',
             clip_model_name = str ''chirp-v3'', clip_status = (str ''queued'')\<rparr>]"] h1
  show ?thesis by (simp add: Let_def new_SunoApi_def)
qed

section \<open>Claims about the session\<close>

text \<open>
  C3: the claim is that a request sent after a renewal carries the token obtained last.
  Here the client is initialised (token \<open>t1\<close>), \<open>keepAlive\<close> is called once more (token
  \<open>t2\<close>), and the feed is fetched. Both interceptors are registered, and the request sent
  after the second renewal carries \<open>Bearer t1\<close>, the token of the first renewal.
\<close>

theorem keepAlive_first_token_kept:
  "(let w = \<lparr>respond = (\<lambda>k req. (0, Inr \<lparr>resp_status = 200, resp_statusText = str ''OK'',
                 resp_data = (if k = 0 then SessionBody (Some (str ''sess''))
                              else if k = 1 then TokenBody (Some (str ''t1''))
                              else if k = 2 then TokenBody (Some (str ''t2''))
                              else FeedBody [])\<rparr>)),
              random = (\<lambda>k. 0)\<rparr>;
        (r1, st1) = init w (new_SunoApi (str ''cookie'') 0);
        (r2, st2) = keepAlive w st1 False;
        (r3, st3) = get w st2 None
    in r1 = Inr () \<and> r2 = Inr () \<and> r3 = Inr [] \<and>
       interceptors st2 = [Some (str ''t1''), Some (str ''t2'')] \<and>
       map req_authorization (sent st3) = [None, None, Some (str ''Bearer t1''), Some (str ''Bearer t1'')])"
  by (simp add: init_def getAuthToken_def keepAlive_def get_def client_request_def
        build_request_def request_authorization_def new_SunoApi_def Let_def)

text \<open>
  When the identity answer has the \<open>response\<close> object and the session id in it is missing
  or empty, \<open>init\<close> fails with the error \<open>Failed to get session id\<close>. Whenever the answer
  carries no session id, with or without that object, \<open>init\<close> fails, the identity request
  is the only request sent (no token renewal, no submission), and the stored session id
  and the interceptors are what they were.
\<close>

lemma init_without_session_id:
  assumes "respond w (length (sent st))
             (build_request st GET (CLERK_BASE_URL @ str ''/v1/client?_clerk_js_version=4.70.5'')
                None None) = (ms, Inr resp)"
    and "\<forall>s. resp_data resp = SessionBody s \<longrightarrow> \<not> truthy s"
  shows "(\<exists>e. fst (init w st) = Inl e) \<and>
         snd (init w st) =
           st\<lparr>sent := sent st @
                  [build_request st GET
                     (CLERK_BASE_URL @ str ''/v1/client?_clerk_js_version=4.70.5'') None None],
              clock := clock st + ms\<rparr> \<and>
         sid (snd (init w st)) = sid st \<and>
         interceptors (snd (init w st)) = interceptors st \<and>
         ((\<exists>s. resp_data resp = SessionBody s) \<longrightarrow>
            fst (init w st) = Inl (Error (str ''Failed to get session id'')))"
  using assms
  by (cases "resp_data resp") (simp_all add: init_def getAuthToken_def client_request_ok)

text \<open>
  C7: the claim is that \<open>init\<close> fails with the error \<open>Failed to get session id\<close> whenever
  the identity answer carries no session id. Here the answer is an object without the
  \<open>response\<close> object. \<open>init\<close> fails and stores nothing, after the identity request alone,
  but the failure is the \<open>TypeError\<close> of reading \<open>last_active_session_id\<close> from a value
  that is not there: the guard that throws the named error is never reached.
\<close>

theorem init_without_response_object:
  "(let w = \<lparr>respond = (\<lambda>k req. (120, Inr \<lparr>resp_status = 200, resp_statusText = str ''OK'',
                                              resp_data = OtherBody\<rparr>)),
             random = (\<lambda>k. 0)\<rparr>;
        st = new_SunoApi (str ''cookie'') 0;
        (res, st') = init w st
    in res = Inl TypeError \<and> res \<noteq> Inl (Error (str ''Failed to get session id'')) \<and>
       sid st' = None \<and> interceptors st' = [] \<and>
       map req_url (sent st')
         = [str ''https://clerk.suno.ai/v1/client?_clerk_js_version=4.70.5''])"
  by (simp add: init_def getAuthToken_def client_request_def build_request_def Let_def
        new_SunoApi_def CLERK_BASE_URL_def)

text \<open>
  C8: \<open>keepAlive\<close> called while no session id is stored fails with the error
  \<open>Session ID is not set. Cannot renew token.\<close> and leaves the state as it was: nothing
  is sent.
\<close>

theorem keepAlive_without_session:
  "\<not> truthy (sid st) \<Longrightarrow>
   keepAlive w st isWait = (Inl (Error (str ''Session ID is not set. Cannot renew token.'')), st)"
  by (simp add: keepAlive_def)

theorem keepAlive_without_session_witness:
  "\<not> truthy (sid (new_SunoApi (str ''cookie'') 0)) \<and>
   keepAlive \<lparr>respond = (\<lambda>k req. (0, Inl (str ''offline''))), random = (\<lambda>k. 0)\<rparr>
     (new_SunoApi (str ''cookie'') 0) True =
     (Inl (Error (str ''Session ID is not set. Cannot renew token.'')), new_SunoApi (str ''cookie'') 0) \<and>
   sent (new_SunoApi (str ''cookie'') 0) = []"
  using keepAlive_without_session
    [of "new_SunoApi (str ''cookie'') 0"
        "\<lparr>respond = (\<lambda>k req. (0, Inl (str ''offline''))), random = (\<lambda>k. 0)\<rparr>" True]
  by (simp add: new_SunoApi_def)

section \<open>Claims about submission\<close>

text \<open>
  C4: every call of \<open>generateSongs\<close> first sends the payload built from its arguments to
  the submission endpoint. In custom mode the payload has exactly the keys
  \<open>make_instrumental\<close>, \<open>mv\<close>, \<open>prompt\<close>, \<open>tags\<close> and \<open>title\<close>, with the prompt text
  under \<open>prompt\<close>; otherwise it has exactly \<open>gpt_description_prompt\<close> (the prompt text),
  \<open>make_instrumental\<close>, \<open>mv\<close> and \<open>prompt\<close> (the empty string), and neither \<open>tags\<close>
  nor \<open>title\<close>. In both modes \<open>make_instrumental\<close> is a boolean, true only when the
  argument is \<open>true\<close>, and \<open>mv\<close> is \<open>chirp-v3-0\<close>. The prompt \<open>a calm piano piece\<close>
  without custom mode gives the payload of the scenario.
\<close>

theorem generateSongs_payload:
  "(\<exists>rest. sent (snd (generateSongs w st prompt isCustom tags title make_instrumental wait_audio))
      = sent st @
        build_request st POST (BASE_URL @ str ''/api/generate/v2/'')
          (Some (build_payload prompt isCustom tags title make_instrumental)) (Some 10000)
        # rest) \<and>
   map_of (build_payload prompt True (Some tags_text) (Some title_text) make_instrumental) =
     [str ''make_instrumental'' \<mapsto> JBool (make_instrumental = Some True),
      str ''mv'' \<mapsto> JString (str ''chirp-v3-0''),
      str ''prompt'' \<mapsto> JString prompt,
      str ''tags'' \<mapsto> JString tags_text,
      str ''title'' \<mapsto> JString title_text] \<and>
   map_of (build_payload prompt False tags title make_instrumental) =
     [str ''gpt_description_prompt'' \<mapsto> JString prompt,
      str ''make_instrumental'' \<mapsto> JBool (make_instrumental = Some True),
      str ''mv'' \<mapsto> JString (str ''chirp-v3-0''),
      str ''prompt'' \<mapsto> JString []] \<and>
   map_of (build_payload (str ''a calm piano piece'') False None None (Some False)) =
     [str ''gpt_description_prompt'' \<mapsto> JString (str ''a calm piano piece''),
      str ''make_instrumental'' \<mapsto> JBool False,
      str ''mv'' \<mapsto> JString (str ''chirp-v3-0''),
      str ''prompt'' \<mapsto> JString []]"
proof -
  have "map_of (build_payload p False t ti mi) =
     [str ''gpt_description_prompt'' \<mapsto> JString p,
      str ''make_instrumental'' \<mapsto> JBool (mi = Some True),
      str ''mv'' \<mapsto> JString (str ''chirp-v3-0''),
      str ''prompt'' \<mapsto> JString []]" for p t ti mi
    by (auto simp: build_payload_def fun_eq_iff)
  moreover
  have "map_of (build_payload prompt True (Some tags_text) (Some title_text) make_instrumental) =
     [str ''make_instrumental'' \<mapsto> JBool (make_instrumental = Some True),
      str ''mv'' \<mapsto> JString (str ''chirp-v3-0''),
      str ''prompt'' \<mapsto> JString prompt,
      str ''tags'' \<mapsto> JString tags_text,
      str ''title'' \<mapsto> JString title_text]"
    by (auto simp: build_payload_def fun_eq_iff)
  ultimately show ?thesis
    using generateSongs_sent_prefix [of w st prompt isCustom tags title make_instrumental wait_audio]
    by simp
qed

text \<open>
  C5: when \<open>generateSongs\<close> does not wait, it sends the submission and after it at most
  one request, the token renewal; it never fetches the feed. When it returns a list, the
  list is the clips of the submission response mapped one by one: it is as long as the
  list of job ids, and the record at each position carries the fields of the clip at that
  position (the lyric being the raw prompt). Both requests were sent, and the renewal made
  its pause (one random draw, at least a second on the clock).
\<close>

theorem generateSongs_no_wait:
  assumes "generateSongs w st prompt isCustom tags title make_instrumental False = (res, st')"
  shows "(sent st' = sent st @
            [build_request st POST (BASE_URL @ str ''/api/generate/v2/'')
               (Some (build_payload prompt isCustom tags title make_instrumental)) (Some 10000)]
          \<or>
          sent st' = sent st @
            [build_request st POST (BASE_URL @ str ''/api/generate/v2/'')
               (Some (build_payload prompt isCustom tags title make_instrumental)) (Some 10000),
             build_request st POST (renewUrl (template (sid st))) None None]) \<and>
         (\<forall>infos. res = Inr infos \<longrightarrow>
            (\<exists>ms response clips.
               respond w (length (sent st))
                 (build_request st POST (BASE_URL @ str ''/api/generate/v2/'')
                    (Some (build_payload prompt isCustom tags title make_instrumental))
                    (Some 10000)) = (ms, Inr response) \<and>
               resp_data response = ClipsBody clips \<and>
               infos = map clip_info clips \<and>
               length infos = length (map clip_id clips) \<and>
               (\<forall>i<length clips.
                  info_id (infos ! i) = clip_id (clips ! i) \<and>
                  info_title (infos ! i) = clip_title (clips ! i) \<and>
                  info_image_url (infos ! i) = clip_image_url (clips ! i) \<and>
                  info_lyric (infos ! i) = meta_prompt (clip_metadata (clips ! i)) \<and>
                  info_audio_url (infos ! i) = clip_audio_url (clips ! i) \<and>
                  info_video_url (infos ! i) = clip_video_url (clips ! i) \<and>
                  info_created_at (infos ! i) = clip_created_at (clips ! i) \<and>
                  info_model_name (infos ! i) = clip_model_name (clips ! i) \<and>
                  info_gpt_description_prompt (infos ! i)
                    = meta_gpt_description_prompt (clip_metadata (clips ! i)) \<and>
                  info_prompt (infos ! i) = meta_prompt (clip_metadata (clips ! i)) \<and>
                  info_status (infos ! i) = clip_status (clips ! i) \<and>
                  info_type (infos ! i) = meta_type (clip_metadata (clips ! i)) \<and>
                  info_tags (infos ! i) = meta_tags (clip_metadata (clips ! i)) \<and>
                  info_duration (infos ! i)
                    = meta_duration_formatted (clip_metadata (clips ! i))) \<and>
               sent st' = sent st @
                 [build_request st POST (BASE_URL @ str ''/api/generate/v2/'')
                    (Some (build_payload prompt isCustom tags title make_instrumental))
                    (Some 10000),
                  build_request st POST (renewUrl (template (sid st))) None None] \<and>
               draws st' = Suc (draws st) \<and> clock st + ms + 1000 \<le> clock st'))"
proof -
  let ?sreq = "build_request st POST (BASE_URL @ str ''/api/generate/v2/'')
                 (Some (build_payload prompt isCustom tags title make_instrumental))
                 (Some 10000)"
  obtain ms r where resp: "respond w (length (sent st)) ?sreq = (ms, r)"
    by (cases "respond w (length (sent st)) ?sreq")
  let ?st1 = "st\<lparr>sent := sent st @ [?sreq], clock := clock st + ms\<rparr>"
  have same: "build_request ?st1 POST (renewUrl (template (sid ?st1))) None None
                = build_request st POST (renewUrl (template (sid st))) None None"
    by (simp add: build_request_def)
  show ?thesis
  proof (cases r)
    case (Inl msg)
    with assms resp show ?thesis
      by (auto simp: generateSongs_def client_request_rejected [of w st _ _ _ _ ms msg])
  next
    case (Inr response)
    with resp have c: "client_request w st POST (BASE_URL @ str ''/api/generate/v2/'')
                (Some (build_payload prompt isCustom tags title make_instrumental))
                (Some 10000) = (Inr response, ?st1)"
      by (simp add: client_request_ok)
    show ?thesis
    proof (cases "\<exists>clips. resp_status response = 200 \<and> resp_data response = ClipsBody clips")
      case False
      with assms c show ?thesis
        by (auto simp: generateSongs_def split: body.splits if_splits)
    next
      case True
      then obtain clips where ok: "resp_status response = 200" "resp_data response = ClipsBody clips"
        by blast
      obtain y st2 where k: "keepAlive w ?st1 True = (y, st2)"
        by (cases "keepAlive w ?st1 True")
      show ?thesis
      proof (cases y)
        case (Inl e)
        with assms c ok k have "res = Inl e" "st' = st2" by (simp_all add: generateSongs_def)
        with keepAlive_state [OF k] same show ?thesis by auto
      next
        case inr: (Inr u)
        with assms c ok k have "res = Inr (map clip_info clips)" "st' = st2"
          by (simp_all add: generateSongs_def)
        with keepAlive_done [OF k [unfolded inr]] same resp Inr ok show ?thesis
          by (auto simp: clip_info_fields)
      qed
    qed
  qed
qed

theorem generateSongs_no_wait_witness:
  "(let first = \<lparr>clip_id = str ''a1'', clip_title = Some (str ''Calm''),
             clip_image_url = None,
             clip_metadata = \<lparr>meta_prompt = Some (str ''la la''),
               meta_gpt_description_prompt = Some (str ''a calm piano piece''),
               meta_type = Some (str ''gen''), meta_tags = Some (str ''piano''),
               meta_duration_formatted = None\<rparr>,
             clip_audio_url = None, clip_video_url = None, clip_created_at = str ''t0'',
             clip_model_name = str ''chirp-v3'', clip_status = str ''submitted''\<rparr>;
        second = \<lparr>clip_id = str ''a2'', clip_title = None, clip_image_url = None,
             clip_metadata = \<lparr>meta_prompt = None, meta_gpt_description_prompt = None,
               meta_type = None, meta_tags = None, meta_duration_formatted = None\<rparr>,
             clip_audio_url = None, clip_video_url = None, clip_created_at = str ''t1'',
             clip_model_name = str ''chirp-v3'', clip_status = str ''queued''\<rparr>;
        w = \<lparr>respond = (\<lambda>k req. (0, Inr \<lparr>resp_status = 200, resp_statusText = str ''OK'',
                                            resp_data = ClipsBody [first, second]\<rparr>)),
             random = (\<lambda>k. 0)\<rparr>;
        st = (new_SunoApi (str ''cookie'') 0)\<lparr>sid := Some (str ''sess'')\<rparr>;
        (res, st') = generateSongs w st (str ''a calm piano piece'') False None None (Some False) False
    in (\<exists>infos. res = Inr infos \<and> length infos = 2 \<and>
          map info_id infos = [str ''a1'', str ''a2''] \<and>
          map info_status infos = [str ''submitted'', str ''queued''] \<and>
          map info_lyric infos = [Some (str ''la la''), None] \<and>
          map info_title infos = [Some (str ''Calm''), None] \<and>
          map info_tags infos = [Some (str ''piano''), None]) \<and>
       sent st' =
         [build_request st POST (BASE_URL @ str ''/api/generate/v2/'')
            (Some (build_payload (str ''a calm piano piece'') False None None (Some False)))
            (Some 10000),
          build_request st POST (renewUrl (str ''sess'')) None None] \<and>
       draws st' = 1)"
proof -
  let ?first = "\<lparr>clip_id = str ''a1'', clip_title = Some (str ''Calm''),
             clip_image_url = None,
             clip_metadata = \<lparr>meta_prompt = Some (str ''la la''),
               meta_gpt_description_prompt = Some (str ''a calm piano piece''),
               meta_type = Some (str ''gen''), meta_tags = Some (str ''piano''),
               meta_duration_formatted = None\<rparr>,
             clip_audio_url = None, clip_video_url = None, clip_created_at = str ''t0'',
             clip_model_name = str ''chirp-v3'', clip_status = str ''submitted''\<rparr>"
  let ?second = "\<lparr>clip_id = str ''a2'', clip_title = None, clip_image_url = None,
             clip_metadata = \<lparr>meta_prompt = None, meta_gpt_description_prompt = None,
               meta_type = None, meta_tags = None, meta_duration_formatted = None\<rparr>,
             clip_audio_url = None, clip_video_url = None, clip_created_at = str ''t1'',
             clip_model_name = str ''chirp-v3'', clip_status = str ''queued''\<rparr>"
  let ?w = "\<lparr>respond = (\<lambda>k req. (0, Inr \<lparr>resp_status = 200, resp_statusText = str ''OK'',
                                            resp_data = ClipsBody [?first, ?second]\<rparr>)),
             random = (\<lambda>k. 0)\<rparr>"
  let ?st = "(new_SunoApi (str ''cookie'') 0)\<lparr>sid := Some (str ''sess'')\<rparr>"
  let ?run = "generateSongs ?w ?st (str ''a calm piano piece'') False None None (Some False) False"
  have h1: "?run = (fst ?run, snd ?run)" by simp
  obtain infos where ok: "fst ?run = Inr infos"
    by (simp add: generateSongs_def client_request_def keepAlive_def Let_def new_SunoApi_def)
  from generateSongs_no_wait [OF h1] ok
  obtain ms response clips
    where sub: "respond ?w (length (sent ?st))
                 (build_request ?st POST (BASE_URL @ str ''/api/generate/v2/'')
                    (Some (build_payload (str ''a calm piano piece'') False None None
                       (Some False)))
                    (Some 10000)) = (ms, Inr response)"
      and body: "resp_data response = ClipsBody clips"
      and len: "length infos = length (map clip_id clips)"
      and fields: "\<forall>i<length clips.
                  info_id (infos ! i) = clip_id (clips ! i) \<and>
                  info_title (infos ! i) = clip_title (clips ! i) \<and>
                  info_image_url (infos ! i) = clip_image_url (clips ! i) \<and>
                  info_lyric (infos ! i) = meta_prompt (clip_metadata (clips ! i)) \<and>
                  info_audio_url (infos ! i) = clip_audio_url (clips ! i) \<and>
                  info_video_url (infos ! i) = clip_video_url (clips ! i) \<and>
                  info_created_at (infos ! i) = clip_created_at (clips ! i) \<and>
                  info_model_name (infos ! i) = clip_model_name (clips ! i) \<and>
                  info_gpt_description_prompt (infos ! i)
                    = meta_gpt_description_prompt (clip_metadata (clips ! i)) \<and>
                  info_prompt (infos ! i) = meta_prompt (clip_metadata (clips ! i)) \<and>
                  info_status (infos ! i) = clip_status (clips ! i) \<and>
                  info_type (infos ! i) = meta_type (clip_metadata (clips ! i)) \<and>
                  info_tags (infos ! i) = meta_tags (clip_metadata (clips ! i)) \<and>
                  info_duration (infos ! i)
                    = meta_duration_formatted (clip_metadata (clips ! i))"
      and log: "sent (snd ?run) = sent ?st @
         [build_request ?st POST (BASE_URL @ str ''/api/generate/v2/'')
            (Some (build_payload (str ''a calm piano piece'') False None None (Some False)))
            (Some 10000),
          build_request ?st POST (renewUrl (template (sid ?st))) None None]"
      and pause: "draws (snd ?run) = Suc (draws ?st)"
    by blast
  from sub body have clips: "clips = [?first, ?second]" by auto
  from len clips obtain x y where two: "infos = [x, y]"
    by (cases infos; cases "tl infos"; cases "tl (tl infos)") auto
  from fields [rule_format, of 0] fields [rule_format, of 1] clips two
  have "info_id x = str ''a1''" "info_id y = str ''a2''"
    "info_status x = str ''submitted''" "info_status y = str ''queued''"
    "info_lyric x = Some (str ''la la'')" "info_lyric y = None"
    "info_title x = Some (str ''Calm'')" "info_title y = None"
    "info_tags x = Some (str ''piano'')" "info_tags y = None"
    by simp_all
  with ok two log pause show ?thesis
    by (simp add: Let_def split_beta new_SunoApi_def)
qed

section \<open>Claims about fetching\<close>

text \<open>
  C6: \<open>get\<close> requests the feed endpoint, without a query when no ids are given and with
  \<open>?ids=\<close> followed by the ids joined by commas otherwise. When the service answers with
  an array, the result has one record per element, in the order of the answer; the lyric
  of each record is the normalised raw prompt when there is one and the empty string
  otherwise.
\<close>

theorem get_maps_feed:
  assumes "respond w (length (sent st))
             (build_request st GET (get_url songIds) None (Some 3000)) = (ms, Inr resp)"
    and "resp_data resp = FeedBody audios"
  shows "get w st songIds =
           (Inr (map feed_info audios),
            st\<lparr>sent := sent st @ [build_request st GET (get_url songIds) None (Some 3000)],
               clock := clock st + ms\<rparr>) \<and>
         get_url songIds =
           (case songIds of
              None \<Rightarrow> BASE_URL @ str ''/api/feed/''
            | Some ids \<Rightarrow> BASE_URL @ str ''/api/feed/?ids='' @ join (str '','') ids) \<and>
         length (map feed_info audios) = length audios \<and>
         (\<forall>i<length audios.
            info_id (map feed_info audios ! i) = clip_id (audios ! i) \<and>
            info_status (map feed_info audios ! i) = clip_status (audios ! i) \<and>
            info_lyric (map feed_info audios ! i) =
              (case meta_prompt (clip_metadata (audios ! i)) of
                 Some raw \<Rightarrow> Some (parseLyrics raw)
               | None \<Rightarrow> Some []) \<and>
            info_title (map feed_info audios ! i) = clip_title (audios ! i) \<and>
            info_image_url (map feed_info audios ! i) = clip_image_url (audios ! i) \<and>
            info_audio_url (map feed_info audios ! i) = clip_audio_url (audios ! i) \<and>
            info_video_url (map feed_info audios ! i) = clip_video_url (audios ! i) \<and>
            info_created_at (map feed_info audios ! i) = clip_created_at (audios ! i) \<and>
            info_model_name (map feed_info audios ! i) = clip_model_name (audios ! i) \<and>
            info_gpt_description_prompt (map feed_info audios ! i)
              = meta_gpt_description_prompt (clip_metadata (audios ! i)) \<and>
            info_prompt (map feed_info audios ! i) = meta_prompt (clip_metadata (audios ! i)) \<and>
            info_type (map feed_info audios ! i) = meta_type (clip_metadata (audios ! i)) \<and>
            info_tags (map feed_info audios ! i) = meta_tags (clip_metadata (audios ! i)) \<and>
            info_duration (map feed_info audios ! i)
              = meta_duration_formatted (clip_metadata (audios ! i)))"
proof -
  have "get_url songIds =
           (case songIds of
              None \<Rightarrow> BASE_URL @ str ''/api/feed/''
            | Some ids \<Rightarrow> BASE_URL @ str ''/api/feed/?ids='' @ join (str '','') ids)"
    by (simp add: get_url_def split: option.splits)
  then show ?thesis
    using get_ok [OF assms] by (simp add: feed_info_fields)
qed

theorem get_maps_feed_witness:
  "(let first = \<lparr>clip_id = str ''a1'', clip_title = None, clip_image_url = None,
             clip_metadata =
               \<lparr>meta_prompt = Some (str ''la'' @ [0x000A, 0x00A0, 0x3000, 0x000A] @ str ''li''),
                meta_gpt_description_prompt = None,
                meta_type = None, meta_tags = None, meta_duration_formatted = None\<rparr>,
             clip_audio_url = None, clip_video_url = None, clip_created_at = str ''t0'',
             clip_model_name = str ''chirp-v3'', clip_status = str ''complete''\<rparr>;
        second = \<lparr>clip_id = str ''a2'', clip_title = None, clip_image_url = None,
             clip_metadata = \<lparr>meta_prompt = None, meta_gpt_description_prompt = None,
               meta_type = None, meta_tags = None, meta_duration_formatted = None\<rparr>,
             clip_audio_url = None, clip_video_url = None, clip_created_at = str ''t0'',
             clip_model_name = str ''chirp-v3'', clip_status = str ''queued''\<rparr>;
        w = \<lparr>respond = (\<lambda>k req. (40, Inr \<lparr>resp_status = 200, resp_statusText = str ''OK'',
                                             resp_data = FeedBody [second, first]\<rparr>)),
             random = (\<lambda>k. 0)\<rparr>;
        st = (new_SunoApi (str ''cookie'') 0)\<lparr>sid := Some (str ''sess'')\<rparr>;
        (res, st') = get w st (Some [str ''a1'', str ''a2''])
    in map req_url (sent st') = [str ''https://studio-api.suno.ai/api/feed/?ids=a1,a2''] \<and>
       res = Inr [feed_info second, feed_info first] \<and>
       map info_id [feed_info second, feed_info first] = [str ''a2'', str ''a1''] \<and>
       map info_lyric [feed_info second, feed_info first]
         = [Some [], Some (str ''la'' @ [0x000A] @ str ''li'')]) \<and>
   get_url None = str ''https://studio-api.suno.ai/api/feed/''"
proof -
  let ?first = "\<lparr>clip_id = str ''a1'', clip_title = None, clip_image_url = None,
             clip_metadata =
               \<lparr>meta_prompt = Some (str ''la'' @ [0x000A, 0x00A0, 0x3000, 0x000A] @ str ''li''),
                meta_gpt_description_prompt = None,
                meta_type = None, meta_tags = None, meta_duration_formatted = None\<rparr>,
             clip_audio_url = None, clip_video_url = None, clip_created_at = str ''t0'',
             clip_model_name = str ''chirp-v3'', clip_status = str ''complete''\<rparr>"
  let ?second = "\<lparr>clip_id = str ''a2'', clip_title = None, clip_image_url = None,
             clip_metadata = \<lparr>meta_prompt = None, meta_gpt_description_prompt = None,
               meta_type = None, meta_tags = None, meta_duration_formatted = None\<rparr>,
             clip_audio_url = None, clip_video_url = None, clip_created_at = str ''t0'',
             clip_model_name = str ''chirp-v3'', clip_status = str ''queued''\<rparr>"
  let ?w = "\<lparr>respond = (\<lambda>k req. (40, Inr \<lparr>resp_status = 200, resp_statusText = str ''OK'',
                                             resp_data = FeedBody [?second, ?first]\<rparr>)),
             random = (\<lambda>k. 0)\<rparr>"
  let ?st = "(new_SunoApi (str ''cookie'') 0)\<lparr>sid := Some (str ''sess'')\<rparr>"
  have h1: "respond ?w (length (sent ?st))
              (build_request ?st GET (get_url (Some [str ''a1'', str ''a2''])) None (Some 3000))
              = (40, Inr \<lparr>resp_status = 200, resp_statusText = str ''OK'',
                           resp_data = FeedBody [?second, ?first]\<rparr>)"
    by simp
  have h2: "resp_data \<lparr>resp_status = 200, resp_statusText = str ''OK'',
                           resp_data = FeedBody [?second, ?first]\<rparr>
              = FeedBody [?second, ?first]"
    by simp
  have lyr: "parseLyrics (str ''la'' @ [0x000A, 0x00A0, 0x3000, 0x000A] @ str ''li'')
               = str ''la'' @ [0x000A] @ str ''li''"
    by (simp add: parseLyrics_def str_def trim_def is_whitespace_def)
  have url: "get_url (Some [str ''a1'', str ''a2''])
               = str ''https://studio-api.suno.ai/api/feed/?ids=a1,a2''"
    by (simp add: get_url_def BASE_URL_def)
  have none: "get_url None = str ''https://studio-api.suno.ai/api/feed/''"
    by (simp add: get_url_def BASE_URL_def)
  from get_maps_feed [OF h1 h2]
  have run: "get ?w ?st (Some [str ''a1'', str ''a2'']) =
           (Inr (map feed_info [?second, ?first]),
            ?st\<lparr>sent := sent ?st @
                    [build_request ?st GET (get_url (Some [str ''a1'', str ''a2''])) None
                       (Some 3000)],
               clock := clock ?st + 40\<rparr>)"
    and lyrics: "\<forall>i<length [?second, ?first].
            info_id (map feed_info [?second, ?first] ! i) = clip_id ([?second, ?first] ! i) \<and>
            info_lyric (map feed_info [?second, ?first] ! i) =
              (case meta_prompt (clip_metadata ([?second, ?first] ! i)) of
                 Some raw \<Rightarrow> Some (parseLyrics raw)
               | None \<Rightarrow> Some [])"
    by blast+
  from lyrics [rule_format, of 0] lyrics [rule_format, of 1] lyr
  have "info_id (feed_info ?second) = str ''a2''" "info_id (feed_info ?first) = str ''a1''"
    "info_lyric (feed_info ?second) = Some []"
    "info_lyric (feed_info ?first) = Some (str ''la'' @ [0x000A] @ str ''li'')"
    by simp_all
  with run url none show ?thesis
    by (simp add: Let_def new_SunoApi_def build_request_def)
qed

end
